theory Spec2Isabelle
  imports Main "HOL-Library.Char_ord" "HOL-Library.List_Lexorder"
begin

section \<open>JavaScript values used by \<^verbatim>\<open>src/index.ts\<close>\<close>

text \<open>
  Header lookups return \<^verbatim>\<open>string | null\<close>, modelled as \<open>string option\<close>.  The
  source tests such values with \<^verbatim>\<open>if (x)\<close>, which is false for \<^verbatim>\<open>null\<close> and for
  the empty string; \<open>truthy\<close> is that test.  \<open>orEmpty\<close> is \<^verbatim>\<open>x || ""\<close>.
\<close>

fun truthy :: "string option \<Rightarrow> bool" where
  "truthy None = False"
| "truthy (Some s) = (s \<noteq> [])"

fun orEmpty :: "string option \<Rightarrow> string" where
  "orEmpty None = []"
| "orEmpty (Some s) = s"

definition startsWith :: "string \<Rightarrow> string \<Rightarrow> bool" where
  "startsWith p s = (take (length p) s = p)"

text \<open>\<^verbatim>\<open>Array.prototype.join\<close> on an array of strings.\<close>

fun join :: "string \<Rightarrow> string list \<Rightarrow> string" where
  "join sep [] = []"
| "join sep [x] = x"
| "join sep (x # y # ys) = x @ sep @ join sep (y # ys)"

text \<open>\<^verbatim>\<open>Number.prototype.toString\<close> on a non-negative integer (a status code).\<close>

definition digit :: "nat \<Rightarrow> char" where
  "digit d = ''0123456789'' ! d"

fun toString :: "nat \<Rightarrow> string" where
  "toString n = (if n < 10 then [digit n] else toString (n div 10) @ [digit (n mod 10)])"

declare toString.simps [simp del]

text \<open>
  \<^verbatim>\<open>JSON.stringify\<close> of a string: the two-character escapes, \<^verbatim>\<open>\u00xx\<close> for the
  other control characters, everything else unchanged.
\<close>

definition hexdigit :: "nat \<Rightarrow> char" where
  "hexdigit d = ''0123456789abcdef'' ! d"

definition quoteChar :: "char \<Rightarrow> string" where
  "quoteChar c =
     (if c = CHR 0x08 then [CHR 0x5C, CHR ''b'']
      else if c = CHR 0x09 then [CHR 0x5C, CHR ''t'']
      else if c = CHR 0x0A then [CHR 0x5C, CHR ''n'']
      else if c = CHR 0x0C then [CHR 0x5C, CHR ''f'']
      else if c = CHR 0x0D then [CHR 0x5C, CHR ''r'']
      else if c = CHR 0x22 then [CHR 0x5C, CHR 0x22]
      else if c = CHR 0x5C then [CHR 0x5C, CHR 0x5C]
      else if (of_char c :: nat) < 32
        then [CHR 0x5C, CHR ''u'', CHR ''0'', CHR ''0'',
              hexdigit (of_char c div 16), hexdigit (of_char c mod 16)]
      else [c])"

definition quoteJSONString :: "string \<Rightarrow> string" where
  "quoteJSONString s = [CHR 0x22] @ concat (map quoteChar s) @ [CHR 0x22]"

section \<open>The \<^verbatim>\<open>Headers\<close> class\<close>

text \<open>
  A \<^verbatim>\<open>Headers\<close> object is its header list: (name, value) pairs in insertion order.
  Names are matched case-insensitively; \<^verbatim>\<open>get\<close> joins the values of all headers of
  one name with \<^verbatim>\<open>", "\<close>; \<^verbatim>\<open>set\<close> overwrites the first header of the name and drops
  the others, or appends.  Iteration goes through the lower-cased names in sorted order
  (\<open>sortedNames\<close>): a name other than \<^verbatim>\<open>set-cookie\<close> is yielded once, with its
  combined value, and \<^verbatim>\<open>set-cookie\<close> is yielded once for each header of that name, with
  that header's own value.  \<^verbatim>\<open>keys()\<close> yields the names of the iteration, and
  \<^verbatim>\<open>new Headers(h)\<close> appends what iterating \<open>h\<close> yields.
  Values are taken as already normalised (no leading or trailing white space).
\<close>

type_synonym headers = "(string \<times> string) list"

definition toLowerCase_char :: "char \<Rightarrow> char" where
  "toLowerCase_char c =
     (case map_of (zip ''ABCDEFGHIJKLMNOPQRSTUVWXYZ'' ''abcdefghijklmnopqrstuvwxyz'') c of
        Some l \<Rightarrow> l
      | None \<Rightarrow> c)"

definition toLowerCase :: "string \<Rightarrow> string" where
  "toLowerCase s = map toLowerCase_char s"

definition named :: "string \<Rightarrow> string \<times> string \<Rightarrow> bool" where
  "named name kv = (toLowerCase (fst kv) = toLowerCase name)"

definition hget :: "string \<Rightarrow> headers \<Rightarrow> string option" where
  "hget name hs =
     (case filter (named name) hs of
        [] \<Rightarrow> None
      | kv # kvs \<Rightarrow> Some (join '', '' (map snd (kv # kvs))))"

definition hdelete :: "string \<Rightarrow> headers \<Rightarrow> headers" where
  "hdelete name hs = filter (\<lambda>kv. \<not> named name kv) hs"

fun hset :: "string \<Rightarrow> string \<Rightarrow> headers \<Rightarrow> headers" where
  "hset name v [] = [(name, v)]"
| "hset name v (kv # hs) =
     (if named name kv then (fst kv, v) # hdelete name hs else kv # hset name v hs)"

definition sortedNames :: "headers \<Rightarrow> string list" where
  "sortedNames hs = remdups (sort (map (\<lambda>kv. toLowerCase (fst kv)) hs))"

definition hentries :: "headers \<Rightarrow> headers" where
  "hentries hs =
     concat (map (\<lambda>name.
                    if name = ''set-cookie''
                    then map (\<lambda>kv. (name, snd kv)) (filter (named name) hs)
                    else [(name, orEmpty (hget name hs))])
               (sortedNames hs))"

definition hkeys :: "headers \<Rightarrow> string list" where
  "hkeys hs = map fst (hentries hs)"


definition newHeaders :: "headers \<Rightarrow> headers" where
  "newHeaders init = foldl (\<lambda>acc kv. acc @ [kv]) [] (hentries init)"

section \<open>Requests and responses\<close>

text \<open>
  A body is \<^verbatim>\<open>null\<close>, a \<^verbatim>\<open>ReadableStream\<close> (identified with the bytes it will
  deliver) or a string.  \<^verbatim>\<open>Request\<close> and \<^verbatim>\<open>Response\<close> share headers and body.
  \<open>fetched\<close> is a \<^verbatim>\<open>Response\<close> with the two ad-hoc properties \<^verbatim>\<open>location\<close> and
  \<^verbatim>\<open>ts\<close> that \<^verbatim>\<open>fetchWithRedirCheck\<close> may attach; a response fresh from \<^verbatim>\<open>fetch\<close>
  has neither (\<open>plain\<close>).  The \<^verbatim>\<open>Response\<close> constructor is taken as total: its
  range check on the status is the platform's, not this program's.  The headers of a
  response built by the program are the headers handed to the constructor; the
  \<^verbatim>\<open>content-type\<close> that the constructor supplies for a string body when none is given
  is not part of them.
\<close>

datatype body = Null | ReadableStream string | String string

record message =
  headers :: headers
  body :: body

record request = message +
  httpMethod :: string

record response = message +
  status :: nat
  statusText :: string

record fetched = response +
  location :: "string option"
  ts :: "string option"

definition plain :: "response \<Rightarrow> fetched" where
  "plain r = \<lparr>headers = headers r, body = body r, status = status r,
              statusText = statusText r, location = None, ts = None\<rparr>"

datatype error = TypeError | FetchError

text \<open>
  The platform's \<^verbatim>\<open>fetch\<close> is a parameter: from a state of the network, a URL and
  the method, headers and body it is called with, it gives a response or throws, and
  the next state of the network.  The options \<^verbatim>\<open>redirect: "manual"\<close> and
  \<^verbatim>\<open>cf: cfOpts\<close> are the same in every call and say that the response is the
  upstream's own, redirects included.
\<close>

type_synonym 'w transport = "'w \<Rightarrow> string \<Rightarrow> request \<Rightarrow> (error + response) \<times> 'w"

section \<open>\<^verbatim>\<open>TS_URL\<close>\<close>

text \<open>
  \<^verbatim>\<open>/([\d]+)id_\/(https?:.*)/\<close> applied with \<^verbatim>\<open>String.prototype.match\<close>: the
  leftmost position where the pattern matches.  At one position the digits are taken
  greedily; giving one back leaves a digit where \<^verbatim>\<open>i\<close> is required, so only the whole
  run can match.  After \<^verbatim>\<open>http\<close> an \<^verbatim>\<open>s\<close> is taken if it is there; without it
  \<^verbatim>\<open>:\<close> would have to match that \<^verbatim>\<open>s\<close>.  \<^verbatim>\<open>.*\<close> runs to the end of the line:
  the strings matched are header values and URLs, whose characters are single bytes, so
  the line terminators are line feed and carriage return.
  The result is the pair of the two groups, \<^verbatim>\<open>m[1]\<close> and \<^verbatim>\<open>m[2]\<close>.
\<close>

definition isDigit :: "char \<Rightarrow> bool" where
  "isDigit c = (c \<in> set ''0123456789'')"

definition isLineTerminator :: "char \<Rightarrow> bool" where
  "isLineTerminator c = (c = CHR 0x0A \<or> c = CHR 0x0D)"

definition stripPrefix :: "string \<Rightarrow> string \<Rightarrow> string option" where
  "stripPrefix p s = (if startsWith p s then Some (drop (length p) s) else None)"

definition TS_URL_at :: "string \<Rightarrow> (string \<times> string) option" where
  "TS_URL_at s =
     (let ds = takeWhile isDigit s in
      if ds = [] then None
      else case stripPrefix ''id_/http'' (dropWhile isDigit s) of
        None \<Rightarrow> None
      | Some r \<Rightarrow>
          (case stripPrefix ''s:'' r of
             Some r' \<Rightarrow> Some (ds, ''https:'' @ takeWhile (\<lambda>c. \<not> isLineTerminator c) r')
           | None \<Rightarrow>
               (case stripPrefix '':'' r of
                  Some r' \<Rightarrow> Some (ds, ''http:'' @ takeWhile (\<lambda>c. \<not> isLineTerminator c) r')
                | None \<Rightarrow> None)))"

fun TS_URL :: "string \<Rightarrow> (string \<times> string) option" where
  "TS_URL [] = None"
| "TS_URL (c # cs) =
     (case TS_URL_at (c # cs) of
        Some m \<Rightarrow> Some m
      | None \<Rightarrow> TS_URL cs)"

section \<open>The program\<close>

subsection \<open>Configuration\<close>

definition CORS_ALLOWED_ORIGINS :: "string list option" where
  "CORS_ALLOWED_ORIGINS =
     Some [''http://localhost:10001'', ''http://localhost:8000'',
           ''http://localhost:3000'', ''https://proxy-test.slax.dev'']"

subsection \<open>\<^verbatim>\<open>notFound\<close> and \<^verbatim>\<open>handleOptions\<close>\<close>

text \<open>
  A \<^verbatim>\<open>Response\<close> built without a status has status 200 and an empty status text.
  \<^verbatim>\<open>JSON.stringify({ error: err })\<close> is the object with its one string member.
\<close>

definition notFound :: "string \<Rightarrow> nat \<Rightarrow> response" where
  "notFound err st =
     \<lparr>headers = [(''Content-Type'', ''application/json'')],
      body = String (''{'' @ quoteJSONString ''error'' @ '':'' @ quoteJSONString err @ ''}''),
      status = st, statusText = []\<rparr>"

definition handleOptions :: "request \<Rightarrow> response" where
  "handleOptions req =
     (let origin = hget ''Origin'' (headers req);
          meth = hget ''Access-Control-Request-Method'' (headers req);
          hdrs = hget ''Access-Control-Request-Headers'' (headers req)
      in
        if CORS_ALLOWED_ORIGINS \<noteq> None \<and> the CORS_ALLOWED_ORIGINS \<noteq> [] \<and> truthy origin
           \<and> the origin \<notin> set (the CORS_ALLOWED_ORIGINS)
        then notFound ''origin not allowed'' 403
        else if origin \<noteq> None \<and> meth \<noteq> None \<and> hdrs \<noteq> None
        then \<lparr>headers = [(''Access-Control-Allow-Method'', the meth),
                          (''Access-Control-Allow-Headers'', the hdrs),
                          (''Access-Control-Allow-Origin'', the origin),
                          (''Access-Control-Allow-Credentials'', ''true'')],
              body = Null, status = 200, statusText = []\<rparr>
        else \<lparr>headers = [(''Allow'', ''GET, HEAD, POST, OPTIONS'')],
              body = Null, status = 200, statusText = []\<rparr>)"

subsection \<open>\<^verbatim>\<open>fetchWithRedirCheck\<close>\<close>

text \<open>
  The \<^verbatim>\<open>while (true)\<close> loop may run for ever (a chain of redirects that never ends);
  \<open>None\<close> is that outcome.  \<open>Inl\<close> is an exception thrown by \<^verbatim>\<open>fetch\<close>.
\<close>

partial_function (option) fetchLoop ::
  "'w transport \<Rightarrow> string option \<Rightarrow> string \<Rightarrow> request \<Rightarrow> 'w \<Rightarrow> ((error + fetched) \<times> 'w) option"
where
  "fetchLoop fetch noHttps url init w =
     (case fetch w url init of
        (Inl e, w') \<Rightarrow> Some (Inl e, w')
      | (Inr resp, w') \<Rightarrow>
          if 300 < status resp \<and> status resp < 400 \<and> status resp \<noteq> 304 then
            (let loc = hget ''location'' (headers resp) in
             if truthy loc then
               (let m = TS_URL (the loc); m2 = TS_URL url in
                if m \<noteq> None \<and> m2 \<noteq> None \<and> snd (the m) = snd (the m2)
                then fetchLoop fetch noHttps (the loc) init w'
                else
                  (let resp' = (if m \<noteq> None
                                then (plain resp)\<lparr>location := Some (snd (the m)),
                                                    ts := Some (fst (the m))\<rparr>
                                else plain resp)
                   in if truthy noHttps \<and> startsWith ''https://'' (the loc)
                      then fetchLoop fetch noHttps (the loc) init w'
                      else Some (Inr resp', w')))
             else Some (Inr (plain resp), w'))
          else Some (Inr (plain resp), w'))"

declare fetchLoop.simps [code]

text \<open>
  \<open>fetchInit\<close> is the object passed to \<^verbatim>\<open>fetch\<close>: the method, the headers after
  the removal of \<^verbatim>\<open>X-OWT-No-HTTPS\<close>, and the body.
\<close>

definition fetchInit :: "string \<Rightarrow> headers \<Rightarrow> body \<Rightarrow> request" where
  "fetchInit meth hdrs bdy =
     (let noHttps = hget ''X-OWT-No-HTTPS'' hdrs
      in \<lparr>headers = (if truthy noHttps then hdelete ''X-OWT-No-HTTPS'' hdrs else hdrs),
          body = bdy, httpMethod = meth\<rparr>)"

definition fetchWithRedirCheck ::
  "'w transport \<Rightarrow> string \<Rightarrow> string \<Rightarrow> headers \<Rightarrow> body \<Rightarrow> 'w \<Rightarrow> ((error + fetched) \<times> 'w) option"
where
  "fetchWithRedirCheck fetch url meth hdrs bdy w =
     (let noHttps = hget ''X-OWT-No-HTTPS'' hdrs
      in fetchLoop fetch noHttps url (fetchInit meth hdrs bdy) w)"

subsection \<open>\<^verbatim>\<open>addCORSHeaders\<close>\<close>

definition addCORSHeaders :: "headers \<Rightarrow> request \<Rightarrow> fetched \<Rightarrow> headers" where
  "addCORSHeaders hdrs req resp =
     (let origin = hget ''Origin'' (headers req) in
      if \<not> truthy origin then hdrs
      else
        (let allowHeaders = [''x-redirect-status'', ''x-redirect-statusText'',
                             ''X-Proxy-Set-Cookie'', ''x-orig-location'', ''x-orig-ts''];
             hdrs1 = hset ''Access-Control-Allow-Origin'' (the origin) hdrs;
             hdrs2 = hset ''Access-Control-Allow-Credentials'' ''true'' hdrs1;
             allowHeaders' = allowHeaders @
               filter (\<lambda>header. header \<notin> set [''transfer-encoding'', ''content-encoding''])
                 (hkeys (headers resp))
         in hset ''Access-Control-Expose-Headers'' (join '','' allowHeaders') hdrs2))"

subsection \<open>\<^verbatim>\<open>handleLiveWebProxy\<close>\<close>

text \<open>
  The function is given in the order of the source: the target with its scheme (lines 45
  to 47, \<open>proxyTarget\<close>), the outbound headers (lines 49 to 84, \<open>proxyHeaders\<close>),
  the outbound body (lines 86 and 87, \<open>proxyBody\<close>), the fetch,
  and the response built from what the fetch returned (lines 96 to 132,
  \<open>proxyResponse\<close>).  \<^verbatim>\<open>new URL(s).origin\<close> is the parameter \<open>origin_of\<close>; it
  gives \<open>None\<close> where the constructor throws.
\<close>

definition copyHeaders :: "request \<Rightarrow> headers" where
  "copyHeaders req =
     foldl (\<lambda>acc (name, v).
              if startsWith ''cf-'' name \<or> startsWith ''x-pywb-'' name \<or> name = ''x-proxy-referer''
              then acc else hset name v acc)
       [] (hentries (headers req))"

definition refererHeaders ::
  "(string \<Rightarrow> string option) \<Rightarrow> string \<Rightarrow> request \<Rightarrow> headers \<Rightarrow> error + headers" where
  "refererHeaders origin_of proxyUrl req hdrs =
     (let referrer = hget ''x-proxy-referer'' (headers req) in
      if truthy referrer then
        (let hdrs1 = hset ''Referer'' (orEmpty (hget ''x-proxy-referer'' (headers req))) hdrs in
         case origin_of (the referrer) of
           None \<Rightarrow> Inl TypeError
         | Some origin \<Rightarrow>
             (case origin_of proxyUrl of
                None \<Rightarrow> Inl TypeError
              | Some target \<Rightarrow>
                  if origin \<noteq> target
                  then Inr (hset ''Sec-Fetch-Site'' ''cross-origin'' (hset ''Origin'' origin hdrs1))
                  else Inr (hset ''Sec-Fetch-Site'' ''same-origin'' (hdelete ''Origin'' hdrs1))))
      else Inr hdrs)"

definition userAgentHeaders :: "request \<Rightarrow> headers \<Rightarrow> headers" where
  "userAgentHeaders req hdrs =
     (let ua = hget ''x-proxy-user-agent'' (headers req) in
      if truthy ua
      then hset ''User-Agent'' (the ua) (hdelete ''x-proxy-user-agent'' hdrs)
      else hdrs)"

definition cookieHeaders :: "request \<Rightarrow> headers \<Rightarrow> headers" where
  "cookieHeaders req hdrs =
     (let cookie = hget ''x-proxy-cookie'' (headers req) in
      if truthy cookie then hset ''Cookie'' (the cookie) hdrs else hdrs)"

definition proxyHeaders ::
  "(string \<Rightarrow> string option) \<Rightarrow> string \<Rightarrow> request \<Rightarrow> error + headers" where
  "proxyHeaders origin_of proxyUrl req =
     (case refererHeaders origin_of proxyUrl req (copyHeaders req) of
        Inl e \<Rightarrow> Inl e
      | Inr hdrs \<Rightarrow> Inr (cookieHeaders req (hdelete ''host'' (userAgentHeaders req hdrs))))"

definition proxyBody :: "request \<Rightarrow> body" where
  "proxyBody req =
     (if httpMethod req = ''GET'' \<or> httpMethod req = ''HEAD'' then Null else body req)"

definition setCookieHeaders :: "fetched \<Rightarrow> headers \<Rightarrow> headers" where
  "setCookieHeaders resp hdrs =
     (let set_cookie = hget ''set-cookie'' (headers resp) in
      if truthy set_cookie then hset ''X-Proxy-Set-Cookie'' (the set_cookie) hdrs else hdrs)"

definition isRedirect :: "nat \<Rightarrow> bool" where
  "isRedirect st = (st \<in> set [301, 302, 303, 307, 308])"

definition redirectHeaders :: "fetched \<Rightarrow> headers \<Rightarrow> headers" where
  "redirectHeaders resp hdrs =
     (if isRedirect (status resp) then
        (let hdrs1 = hset ''x-redirect-status'' (toString (status resp)) hdrs;
             hdrs2 = hset ''x-redirect-statusText'' (statusText resp) hdrs1;
             hdrs3 = (if truthy (hget ''location'' (headers resp))
                      then hset ''x-orig-location'' (orEmpty (hget ''location'' (headers resp))) hdrs2
                      else if truthy (location resp)
                      then hset ''x-orig-location'' (the (location resp)) hdrs2
                      else hdrs2)
         in if truthy (ts resp) then hset ''x-orig-ts'' (the (ts resp)) hdrs3 else hdrs3)
      else hdrs)"

definition proxyStatus :: "fetched \<Rightarrow> nat" where
  "proxyStatus resp = (if isRedirect (status resp) then 200 else status resp)"

definition proxyResponse :: "request \<Rightarrow> fetched \<Rightarrow> response" where
  "proxyResponse req resp =
     (let hdrs = redirectHeaders resp (setCookieHeaders resp (newHeaders (headers resp)));
          st = proxyStatus resp;
          hdrs' = addCORSHeaders hdrs req resp;
          respBody =
            (if 400 \<le> st \<and> \<not> truthy (hget ''memento-datetime'' (headers resp))
             then String (''Sorry, this page was not found or could not be loaded: (Error ''
                          @ toString st @ '')'')
             else body resp)
      in \<lparr>headers = hdrs', body = respBody, status = st, statusText = statusText resp\<rparr>)"

definition proxyTarget :: "string \<Rightarrow> string" where
  "proxyTarget proxyUrl = (if startsWith ''//'' proxyUrl then ''https:'' @ proxyUrl else proxyUrl)"

definition handleLiveWebProxy ::
  "'w transport \<Rightarrow> (string \<Rightarrow> string option) \<Rightarrow> string \<Rightarrow> request \<Rightarrow> 'w
     \<Rightarrow> ((error + response) \<times> 'w) option" where
  "handleLiveWebProxy fetch origin_of proxyUrl0 req w =
     (let proxyUrl = proxyTarget proxyUrl0 in
      case proxyHeaders origin_of proxyUrl req of
        Inl e \<Rightarrow> Some (Inl e, w)
      | Inr hdrs \<Rightarrow>
          (case fetchWithRedirCheck fetch proxyUrl (httpMethod req) hdrs (proxyBody req) w of
             None \<Rightarrow> None
           | Some (Inl e, w') \<Rightarrow> Some (Inl e, w')
           | Some (Inr resp, w') \<Rightarrow> Some (Inr (proxyResponse req resp), w')))"

section \<open>Observing the calls of \<^verbatim>\<open>fetch\<close>\<close>

text \<open>
  What the program sends upstream is what it passes to \<^verbatim>\<open>fetch\<close>.  \<open>recording\<close>
  wraps a transport so that the state also holds the list of calls made so far, each
  with its URL and its method, headers and body.
\<close>

definition recording :: "'w transport \<Rightarrow> ('w \<times> (string \<times> request) list) transport" where
  "recording fetch s url init =
     (case fetch (fst s) url init of
        (r, w') \<Rightarrow> (r, (w', snd s @ [(url, init)])))"

text \<open>
  An invariant of what \<^verbatim>\<open>fetchWithRedirCheck\<close> returns: the two ad-hoc properties
  are both unset, or they are the two groups of \<^verbatim>\<open>TS_URL\<close> on the response's own
  non-empty \<^verbatim>\<open>Location\<close>.
\<close>

definition annotated :: "fetched \<Rightarrow> bool" where
  "annotated resp \<longleftrightarrow>
     (location resp = None \<and> ts resp = None) \<or>
     (\<exists>loc t u. hget ''location'' (headers resp) = Some loc \<and> loc \<noteq> []
        \<and> TS_URL loc = Some (t, u) \<and> location resp = Some u \<and> ts resp = Some t)"

section \<open>Names of headers\<close>

text \<open>
  The names of a header list, lower-cased, and the names that \<^verbatim>\<open>handleLiveWebProxy\<close>
  sets itself on the outbound headers.
\<close>

definition added_names :: "string set" where
  "added_names = {''referer'', ''origin'', ''sec-fetch-site'', ''user-agent'', ''cookie''}"

definition lnames :: "headers \<Rightarrow> string set" where
  "lnames hs = (\<lambda>kv. toLowerCase (fst kv)) ` set hs"

section \<open>Example requests, responses and upstreams\<close>

definition respond :: "response \<Rightarrow> unit transport" where
  "respond r w url init = (Inr r, w)"

definition req_plain :: request where
  "req_plain = \<lparr>headers = [(''Accept'', ''text/html'')], body = Null, httpMethod = ''GET''\<rparr>"

definition req_origin :: request where
  "req_origin = \<lparr>headers = [(''Origin'', ''https://example.com'')], body = Null, httpMethod = ''GET''\<rparr>"

definition req_empty_origin :: request where
  "req_empty_origin = \<lparr>headers = [(''Origin'', [])], body = Null, httpMethod = ''GET''\<rparr>"

definition resp_ok :: response where
  "resp_ok = \<lparr>headers = [(''Content-Type'', ''text/html''), (''Content-Encoding'', ''gzip'')],
              body = ReadableStream ''<html></html>'', status = 200, statusText = ''OK''\<rparr>"

definition resp_cors :: response where
  "resp_cors = \<lparr>headers = [(''Access-Control-Allow-Origin'', ''*'')],
                body = ReadableStream ''<html></html>'', status = 200, statusText = ''OK''\<rparr>"

definition resp_404 :: response where
  "resp_404 = \<lparr>headers = [(''Content-Type'', ''text/html'')],
               body = ReadableStream ''gone'', status = 404, statusText = ''Not Found''\<rparr>"

definition resp_404_memento :: response where
  "resp_404_memento =
     \<lparr>headers = [(''Memento-Datetime'', ''Wed, 01 Jan 2020 00:00:00 GMT'')],
      body = ReadableStream ''archived 404 page'', status = 404, statusText = ''Not Found''\<rparr>"

definition resp_404_empty_memento :: response where
  "resp_404_empty_memento =
     \<lparr>headers = [(''Memento-Datetime'', [])],
      body = ReadableStream ''archived 404 page'', status = 404, statusText = ''Not Found''\<rparr>"

definition resp_302 :: response where
  "resp_302 = \<lparr>headers = [(''Location'', ''https://site.test/b.html'')],
               body = Null, status = 302, statusText = ''Found''\<rparr>"

definition resp_302_ts :: response where
  "resp_302_ts =
     \<lparr>headers = [(''Location'', ''/web/20200102000000id_/https://site.test/a.html'')],
      body = Null, status = 302, statusText = ''Found''\<rparr>"

definition resp_305 :: response where
  "resp_305 = \<lparr>headers = [(''Location'', ''/web/20200102000000id_/https://site.test/a.html'')],
               body = Null, status = 305, statusText = ''Use Proxy''\<rparr>"


text \<open>The origins of the URLs of the examples; \<^verbatim>\<open>new URL\<close> throws on the others.\<close>

definition origin_table :: "string \<Rightarrow> string option" where
  "origin_table =
     map_of [(''https://site.test/a.html'', ''https://site.test''),
             (''https://site.test/index.html'', ''https://site.test''),
             (''https://other.test/page'', ''https://other.test'')]"

definition req_cookie :: request where
  "req_cookie = \<lparr>headers = [(''X-Proxy-Cookie'', ''session=abc'')], body = Null,
                 httpMethod = ''GET''\<rparr>"

definition req_referer_cross :: request where
  "req_referer_cross = \<lparr>headers = [(''X-Proxy-Referer'', ''https://other.test/page'')],
                        body = Null, httpMethod = ''GET''\<rparr>"

definition req_referer_same :: request where
  "req_referer_same =
     \<lparr>headers = [(''X-Proxy-Referer'', ''https://site.test/index.html''),
                  (''Origin'', ''https://replay.test'')],
      body = Null, httpMethod = ''GET''\<rparr>"

definition req_referer_empty :: request where
  "req_referer_empty = \<lparr>headers = [(''X-Proxy-Referer'', [])], body = Null,
                        httpMethod = ''GET''\<rparr>"

definition req_get_body :: request where
  "req_get_body = \<lparr>headers = [(''Content-Type'', ''text/plain'')],
                   body = ReadableStream ''payload'', httpMethod = ''GET''\<rparr>"

definition req_post :: request where
  "req_post = \<lparr>headers = [(''Content-Type'', ''text/plain'')],
               body = ReadableStream ''payload'', httpMethod = ''POST''\<rparr>"

definition opt_empty_origin :: request where
  "opt_empty_origin =
     \<lparr>headers = [(''Origin'', []), (''Access-Control-Request-Method'', ''POST''),
                  (''Access-Control-Request-Headers'', ''content-type'')],
      body = Null, httpMethod = ''OPTIONS''\<rparr>"

definition opt_forbidden :: request where
  "opt_forbidden =
     \<lparr>headers = [(''Origin'', ''https://evil.test''), (''Access-Control-Request-Method'', ''POST''),
                  (''Access-Control-Request-Headers'', ''content-type'')],
      body = Null, httpMethod = ''OPTIONS''\<rparr>"

definition opt_preflight :: request where
  "opt_preflight =
     \<lparr>headers = [(''Origin'', ''http://localhost:3000''),
                  (''Access-Control-Request-Method'', ''POST''),
                  (''Access-Control-Request-Headers'', ''content-type'')],
      body = Null, httpMethod = ''OPTIONS''\<rparr>"

definition opt_bare :: request where
  "opt_bare = \<lparr>headers = [(''Accept'', ''text/html'')], body = Null, httpMethod = ''OPTIONS''\<rparr>"

definition req_dirty :: request where
  "req_dirty =
     \<lparr>headers = [(''CF-Ray'', ''7d1''), (''X-Pywb-Requested-With'', ''XMLHttpRequest''),
                  (''Host'', ''proxy.test''), (''X-Proxy-User-Agent'', ''Mozilla/5.0''),
                  (''X-Proxy-Cookie'', ''session=abc''), (''Accept'', ''text/html'')],
      body = Null, httpMethod = ''GET''\<rparr>"

definition resp_set_cookie :: response where
  "resp_set_cookie = \<lparr>headers = [(''Set-Cookie'', ''id=1; Path=/'')],
                      body = ReadableStream ''<html></html>'', status = 200, statusText = ''OK''\<rparr>"

definition resp_two_cookies :: response where
  "resp_two_cookies =
     \<lparr>headers = [(''X-A'', ''1''), (''Set-Cookie'', ''a=1''), (''Set-Cookie'', ''b=2'')],
      body = ReadableStream ''<html></html>'', status = 200, statusText = ''OK''\<rparr>"

text \<open>An upstream that throws on every call that carries a body.\<close>

definition picky :: "unit transport" where
  "picky w url init = (if body init = Null then (Inr resp_ok, w) else (Inl FetchError, w))"

section \<open>Laws of \<^verbatim>\<open>Headers\<close>\<close>

lemmas lower_eval = toLowerCase_def toLowerCase_char_def

text \<open>The header names of the program, lower-cased.\<close>

lemma lows:
  "toLowerCase ''X-Proxy-Set-Cookie'' = ''x-proxy-set-cookie''"
  "toLowerCase ''x-redirect-status'' = ''x-redirect-status''"
  "toLowerCase ''x-redirect-statusText'' = ''x-redirect-statustext''"
  "toLowerCase ''x-orig-location'' = ''x-orig-location''"
  "toLowerCase ''x-orig-ts'' = ''x-orig-ts''"
  "toLowerCase ''Access-Control-Allow-Origin'' = ''access-control-allow-origin''"
  "toLowerCase ''Access-Control-Allow-Credentials'' = ''access-control-allow-credentials''"
  "toLowerCase ''Access-Control-Expose-Headers'' = ''access-control-expose-headers''"
  "toLowerCase ''location'' = ''location''"
  "toLowerCase ''Location'' = ''location''"
  "toLowerCase ''User-Agent'' = ''user-agent''"
  "toLowerCase ''x-proxy-user-agent'' = ''x-proxy-user-agent''"
  "toLowerCase ''Cookie'' = ''cookie''"
  "toLowerCase ''X-OWT-No-HTTPS'' = ''x-owt-no-https''"
  "toLowerCase ''x-proxy-referer'' = ''x-proxy-referer''"
  "toLowerCase ''X-Proxy-Referer'' = ''x-proxy-referer''"
  "toLowerCase ''Referer'' = ''referer''"
  "toLowerCase ''Origin'' = ''origin''"
  "toLowerCase ''Sec-Fetch-Site'' = ''sec-fetch-site''"
  "toLowerCase ''host'' = ''host''"
  "toLowerCase ''x-proxy-cookie'' = ''x-proxy-cookie''"
  "toLowerCase ''set-cookie'' = ''set-cookie''"
  "toLowerCase ''memento-datetime'' = ''memento-datetime''"
  "toLowerCase ''Host'' = ''host''"
  "toLowerCase ''X-Proxy-User-Agent'' = ''x-proxy-user-agent''"
  "toLowerCase ''X-Proxy-Cookie'' = ''x-proxy-cookie''"
  "toLowerCase ''Set-Cookie'' = ''set-cookie''"
  by (simp_all add: lower_eval)

lemma toLowerCase_char_idem: "toLowerCase_char (toLowerCase_char c) = toLowerCase_char c"
  by (simp add: toLowerCase_char_def)

lemma toLowerCase_idem: "toLowerCase (toLowerCase s) = toLowerCase s"
  by (simp add: toLowerCase_def toLowerCase_char_idem)

lemma truthy_Some: "truthy x \<longleftrightarrow> (\<exists>s. x = Some s \<and> s \<noteq> [])"
  by (cases x) auto

lemma hget_values:
  "hget n hs = (if filter (named n) hs = [] then None
                else Some (join '', '' (map snd (filter (named n) hs))))"
  by (simp add: hget_def split: list.splits)

lemma filter_named_hdelete:
  "filter (named n) (hdelete n' hs) =
     (if toLowerCase n = toLowerCase n' then [] else filter (named n) hs)"
  by (induction hs) (auto simp: hdelete_def named_def[abs_def])

lemma values_hset:
  "map snd (filter (named n) (hset n' v hs)) =
     (if toLowerCase n = toLowerCase n' then [v] else map snd (filter (named n) hs))"
proof (induction hs)
  case Nil
  show ?case by (simp add: named_def)
next
  case (Cons kv hs)
  show ?case
  proof (cases "named n' kv")
    case True
    then show ?thesis
      by (simp add: filter_named_hdelete) (auto simp: named_def)
  next
    case False
    with Cons show ?thesis
      by simp (auto simp: named_def)
  qed
qed

text \<open>\<^verbatim>\<open>get\<close> after \<^verbatim>\<open>delete\<close> and after \<^verbatim>\<open>set\<close>.\<close>

lemma hget_hdelete:
  "hget n (hdelete n' hs) = (if toLowerCase n = toLowerCase n' then None else hget n hs)"
  by (simp add: hget_values filter_named_hdelete)

lemma hget_hset:
  "hget n (hset n' v hs) = (if toLowerCase n = toLowerCase n' then Some v else hget n hs)"
proof -
  have "filter (named n) (hset n' v hs) = [] \<longleftrightarrow> map snd (filter (named n) (hset n' v hs)) = []"
    by simp
  also have "\<dots> \<longleftrightarrow> toLowerCase n \<noteq> toLowerCase n' \<and> filter (named n) hs = []"
    by (simp only: values_hset) simp
  finally show ?thesis
    by (simp add: hget_values values_hset)
qed

lemma hget_toLowerCase: "hget (toLowerCase n) hs = hget n hs"
  by (simp add: hget_def named_def[abs_def] toLowerCase_idem)

text \<open>
  Iteration: the names are lower-cased and sorted, \<^verbatim>\<open>set-cookie\<close> comes once for each
  header of that name and every other name once; a copy answers \<^verbatim>\<open>get\<close> as the
  original.
\<close>

lemma set_sortedNames: "set (sortedNames hs) = (\<lambda>kv. toLowerCase (fst kv)) ` set hs"
  by (simp add: sortedNames_def)

lemma distinct_sortedNames: "distinct (sortedNames hs)"
  by (simp add: sortedNames_def)

lemma sorted_sortedNames: "sorted (sortedNames hs)"
  by (simp add: sortedNames_def sorted_remdups)

lemma sortedNames_lower: "k \<in> set (sortedNames hs) \<Longrightarrow> toLowerCase k = k"
  by (auto simp: set_sortedNames toLowerCase_idem)

lemma in_sortedNames_iff:
  "toLowerCase n \<in> set (sortedNames hs) \<longleftrightarrow> filter (named n) hs \<noteq> []"
  by (force simp: set_sortedNames filter_empty_conv named_def image_iff)

lemma named_toLowerCase: "named (toLowerCase n) = named n"
  by (simp add: named_def[abs_def] toLowerCase_idem)

lemma concat_map_select:
  "distinct xs \<Longrightarrow>
   concat (map (\<lambda>k. if k = a then f k else []) xs) = (if a \<in> set xs then f a else [])"
  by (induction xs) auto


lemma filter_named_same:
  "\<forall>x \<in> set xs. fst x = k \<Longrightarrow>
   filter (named n) xs = (if toLowerCase k = toLowerCase n then xs else [])"
  by (induction xs) (auto simp: named_def)

lemma filter_named_entries:
  "filter (named n)
     (concat (map (\<lambda>name.
                if name = c
                then map (\<lambda>kv. (name, snd kv)) (filter (named name) hs)
                else [(name, orEmpty (hget name hs))])
        (sortedNames hs))) =
     (if toLowerCase n = c
      then map (\<lambda>kv. (c, snd kv)) (filter (named n) hs)
      else if filter (named n) hs = [] then []
      else [(toLowerCase n, orEmpty (hget n hs))])"
proof -
  let ?f = "\<lambda>name. if name = c
                    then map (\<lambda>kv. (name, snd kv)) (filter (named name) hs)
                    else [(name, orEmpty (hget name hs))]"
  have "filter (named n) (concat (map ?f (sortedNames hs))) =
          concat (map (\<lambda>k. filter (named n) (?f k)) (sortedNames hs))"
    by (simp add: filter_concat comp_def)
  also have "\<dots> = concat (map (\<lambda>k. if k = toLowerCase n then ?f k else []) (sortedNames hs))"
  proof (rule arg_cong [where f = concat], rule map_cong [OF refl])
    fix k assume "k \<in> set (sortedNames hs)"
    then have low: "toLowerCase k = k" by (rule sortedNames_lower)
    have "\<forall>x \<in> set (?f k). fst x = k" by auto
    then have "filter (named n) (?f k) = (if toLowerCase k = toLowerCase n then ?f k else [])"
      by (rule filter_named_same)
    then show "filter (named n) (?f k) = (if k = toLowerCase n then ?f k else [])"
      by (simp only: low)
  qed
  also have "\<dots> = (if toLowerCase n \<in> set (sortedNames hs) then ?f (toLowerCase n) else [])"
    by (rule concat_map_select [OF distinct_sortedNames])
  finally show ?thesis
    by (auto simp: in_sortedNames_iff named_toLowerCase hget_toLowerCase)
qed

lemma filter_named_hentries:
  "filter (named n) (hentries hs) =
     (if toLowerCase n = ''set-cookie''
      then map (\<lambda>kv. (''set-cookie'', snd kv)) (filter (named n) hs)
      else if filter (named n) hs = [] then []
      else [(toLowerCase n, orEmpty (hget n hs))])"
  unfolding hentries_def by (rule filter_named_entries)

lemma newHeaders_hentries: "newHeaders hs = hentries hs"
proof -
  have "foldl (\<lambda>acc kv. acc @ [kv]) a xs = a @ xs" for a and xs :: headers
    by (induction xs arbitrary: a) simp_all
  then show ?thesis by (simp add: newHeaders_def)
qed

lemma hget_newHeaders: "hget n (newHeaders hs) = hget n hs"
proof -
  have "map snd (filter (named n) (hentries hs)) =
          (if toLowerCase n = ''set-cookie'' then map snd (filter (named n) hs)
           else if filter (named n) hs = [] then [] else [orEmpty (hget n hs)])"
    by (simp only: filter_named_hentries) (simp add: comp_def)
  moreover have "filter (named n) (hentries hs) = [] \<longleftrightarrow> filter (named n) hs = []"
    by (simp only: filter_named_hentries) simp
  ultimately show ?thesis
    unfolding newHeaders_hentries
    by (simp only: hget_values [of n "hentries hs"]) (simp add: hget_values)
qed

text \<open>The names that iteration yields.\<close>

lemma map_fst_entries:
  "map fst
     (concat (map (\<lambda>name.
                if name = c
                then map (\<lambda>kv. (name, snd kv)) (filter (named name) hs)
                else [(name, orEmpty (hget name hs))])
        (sortedNames hs))) =
   concat (map (\<lambda>name. if name = c then replicate (length (filter (named name) hs)) name
                        else [name])
             (sortedNames hs))"
  by (simp add: map_concat comp_def if_distrib [of "map fst"] map_replicate_const cong: if_cong)

lemma hkeys_sortedNames:
  "hkeys hs =
     concat (map (\<lambda>name. if name = ''set-cookie''
                          then replicate (length (filter (named name) hs)) name
                          else [name])
               (sortedNames hs))"
  unfolding hkeys_def hentries_def by (rule map_fst_entries)

lemma set_keys:
  "set (concat (map (\<lambda>name. if name = c then replicate (length (filter (named name) hs)) name
                        else [name])
             (sortedNames hs))) = set (sortedNames hs)"
proof -
  let ?g = "\<lambda>name. if name = c then replicate (length (filter (named name) hs)) name else [name]"
  have one: "set (?g k) = {k}" if "k \<in> set (sortedNames hs)" for k
  proof -
    from that have "toLowerCase k = k" by (rule sortedNames_lower)
    with that in_sortedNames_iff [of k hs] have "0 < length (filter (named k) hs)" by simp
    then show ?thesis by (cases "k = c") (simp_all only: set_replicate_conv_if, simp_all)
  qed
  have "set (concat (map ?g (sortedNames hs))) = (\<Union>k\<in>set (sortedNames hs). set (?g k))"
    by (simp only: set_concat set_map image_image)
  also have "\<dots> = (\<Union>k\<in>set (sortedNames hs). {k})"
    by (rule SUP_cong [OF refl]) (rule one)
  also have "\<dots> = set (sortedNames hs)"
    by simp
  finally show ?thesis .
qed

lemma set_hkeys: "set (hkeys hs) = (\<lambda>kv. toLowerCase (fst kv)) ` set hs"
  by (simp only: hkeys_sortedNames set_keys set_sortedNames)

lemma hkeys_lower: "k \<in> set (hkeys hs) \<Longrightarrow> toLowerCase k = k"
  by (auto simp: set_hkeys toLowerCase_idem)

lemma count_hkeys:
  "length (filter (\<lambda>k. k = toLowerCase n) (hkeys hs)) =
     (if toLowerCase n = ''set-cookie'' then length (filter (named n) hs)
      else if filter (named n) hs = [] then 0 else 1)"
proof -
  have "filter (\<lambda>k. k = toLowerCase n) (hkeys hs) = map fst (filter (named n) (hentries hs))"
  proof -
    have "filter ((\<lambda>k. k = toLowerCase n) \<circ> fst) (hentries hs) = filter (named n) (hentries hs)"
    proof (rule filter_cong [OF refl])
      fix x assume "x \<in> set (hentries hs)"
      then have "fst x \<in> set (hkeys hs)" by (simp add: hkeys_def)
      then have "toLowerCase (fst x) = fst x" by (rule hkeys_lower)
      then show "((\<lambda>k. k = toLowerCase n) \<circ> fst) x = named n x"
        by (simp add: named_def)
    qed
    then show ?thesis by (simp add: hkeys_def filter_map)
  qed
  then show ?thesis
    by (simp only: filter_named_hentries) simp
qed

lemma sorted_keys:
  "sorted xs \<Longrightarrow>
   sorted (concat (map (\<lambda>name. if name = c then replicate (m name) name else [name]) xs))"
  for xs :: "string list"
  by (induction xs) (auto simp: sorted_append)

lemma sorted_hkeys: "sorted (hkeys hs)"
  unfolding hkeys_sortedNames by (rule sorted_keys [OF sorted_sortedNames])

section \<open>The response sent to the client\<close>

lemma status_proxyResponse: "status (proxyResponse req resp) = proxyStatus resp"
  by (simp add: proxyResponse_def Let_def)

lemma headers_proxyResponse:
  "headers (proxyResponse req resp) =
     addCORSHeaders (redirectHeaders resp (setCookieHeaders resp (newHeaders (headers resp)))) req resp"
  by (simp add: proxyResponse_def Let_def)

lemma addCORSHeaders_no_origin:
  "\<not> truthy (hget ''Origin'' (headers req)) \<Longrightarrow> addCORSHeaders hdrs req resp = hdrs"
  by (simp add: addCORSHeaders_def)

lemma hget_setCookieHeaders:
  "toLowerCase n \<noteq> ''x-proxy-set-cookie'' \<Longrightarrow> hget n (setCookieHeaders resp hdrs) = hget n hdrs"
  by (simp add: setCookieHeaders_def Let_def hget_hset lows)

lemma hget_redirectHeaders_other:
  "toLowerCase n \<notin> set [''x-redirect-status'', ''x-redirect-statustext'', ''x-orig-location'',
                          ''x-orig-ts'']
     \<Longrightarrow> hget n (redirectHeaders resp hdrs) = hget n hdrs"
  by (simp add: redirectHeaders_def Let_def hget_hset lows)

lemma hget_addCORSHeaders_other:
  "toLowerCase n \<notin> set [''access-control-allow-origin'', ''access-control-allow-credentials'',
                          ''access-control-expose-headers'']
     \<Longrightarrow> hget n (addCORSHeaders hdrs req resp) = hget n hdrs"
  by (simp add: addCORSHeaders_def Let_def hget_hset lows)

text \<open>
  C3.  The claim: for every inbound request without an \<^verbatim>\<open>Origin\<close> header the outgoing
  response carries no \<^verbatim>\<open>Access-Control-Allow-Origin\<close>, whatever headers the upstream
  response carries.  The upstream's headers are all copied, its own
  \<^verbatim>\<open>Access-Control-Allow-Origin\<close> among them: a request without \<^verbatim>\<open>Origin\<close> to an
  upstream that answers \<^verbatim>\<open>Access-Control-Allow-Origin: *\<close> gets that header back.
\<close>

theorem C3_upstream_allow_origin_is_copied:
  "hget ''Origin'' (headers req_plain) = None \<and>
   handleLiveWebProxy (respond resp_cors) (\<lambda>u. None) ''https://site.test/a.html'' req_plain () =
     Some (Inr \<lparr>headers = [(''access-control-allow-origin'', ''*'')],
                 body = ReadableStream ''<html></html>'', status = 200, statusText = ''OK''\<rparr>, ()) \<and>
   hget ''Access-Control-Allow-Origin'' [(''access-control-allow-origin'', ''*'')] = Some ''*''"
  by code_simp

text \<open>
  C3, as amended.  For every inbound request without an \<^verbatim>\<open>Origin\<close> header the pipeline
  adds no \<^verbatim>\<open>Access-Control-Allow-Origin\<close> of its own: the outgoing response has that
  header exactly as the upstream response has it, and has none when the upstream has none.
\<close>

theorem C3_no_origin_allow_origin_as_upstream:
  "hget ''Origin'' (headers req) = None \<Longrightarrow>
   hget ''Access-Control-Allow-Origin'' (headers (proxyResponse req resp))
     = hget ''Access-Control-Allow-Origin'' (headers resp)"
  by (simp add: headers_proxyResponse addCORSHeaders_no_origin hget_redirectHeaders_other
      hget_setCookieHeaders hget_newHeaders lows)

theorem C3_witness:
  "hget ''Origin'' (headers req_plain) = None \<and>
   hget ''Access-Control-Allow-Origin'' (headers (proxyResponse req_plain (plain resp_ok))) = None"
proof -
  have h: "hget ''Origin'' (headers req_plain) = None"
    by code_simp
  have u: "hget ''Access-Control-Allow-Origin'' (headers (plain resp_ok)) = None"
    by code_simp
  from C3_no_origin_allow_origin_as_upstream [OF h, of "plain resp_ok"] h u
  show ?thesis by simp
qed

text \<open>
  C6.  The claim: for every inbound request that carries an \<^verbatim>\<open>Origin\<close> header the
  outgoing \<^verbatim>\<open>Access-Control-Allow-Origin\<close> is that origin,
  \<^verbatim>\<open>Access-Control-Allow-Credentials\<close> is \<^verbatim>\<open>true\<close> and
  \<^verbatim>\<open>Access-Control-Expose-Headers\<close> is the joined list.  \<^verbatim>\<open>addCORSHeaders\<close> returns
  at \<^verbatim>\<open>if (!origin)\<close>, which holds for an \<^verbatim>\<open>Origin\<close> header with an empty value too:
  such a request carries the header and gets none of the three.
\<close>

theorem C6_empty_origin_gets_no_cors_headers:
  "hget ''Origin'' (headers req_empty_origin) = Some [] \<and>
   hget ''Access-Control-Allow-Origin'' (headers (proxyResponse req_empty_origin (plain resp_ok)))
     = None \<and>
   hget ''Access-Control-Allow-Credentials'' (headers (proxyResponse req_empty_origin (plain resp_ok)))
     = None \<and>
   hget ''Access-Control-Expose-Headers'' (headers (proxyResponse req_empty_origin (plain resp_ok)))
     = None"
  by code_simp

text \<open>
  C6, as amended.  For every inbound request that carries an \<^verbatim>\<open>Origin\<close> header with a
  non-empty value, the outgoing \<^verbatim>\<open>Access-Control-Allow-Origin\<close> is exactly that value,
  \<^verbatim>\<open>Access-Control-Allow-Credentials\<close> is \<^verbatim>\<open>true\<close>, and
  \<^verbatim>\<open>Access-Control-Expose-Headers\<close> is the comma-joined list of the five fixed names
  followed by the upstream response's header names other than \<^verbatim>\<open>transfer-encoding\<close>
  and \<^verbatim>\<open>content-encoding\<close>, as \<^verbatim>\<open>resp.headers.keys()\<close> yields them: lower-cased
  and sorted, \<^verbatim>\<open>set-cookie\<close> once for each \<^verbatim>\<open>Set-Cookie\<close> header of the upstream
  response and every other name once (\<open>hkeys_sortedNames\<close>, \<open>sorted_hkeys\<close>,
  \<open>count_hkeys\<close>).
\<close>

theorem C6_origin_reflected:
  assumes "hget ''Origin'' (headers req) = Some origin" and "origin \<noteq> []"
  shows "hget ''Access-Control-Allow-Origin'' (headers (proxyResponse req resp)) = Some origin
    \<and> hget ''Access-Control-Allow-Credentials'' (headers (proxyResponse req resp)) = Some ''true''
    \<and> hget ''Access-Control-Expose-Headers'' (headers (proxyResponse req resp)) =
        Some (join '',''
               ([''x-redirect-status'', ''x-redirect-statusText'', ''X-Proxy-Set-Cookie'',
                 ''x-orig-location'', ''x-orig-ts'']
                @ filter (\<lambda>name. name \<noteq> ''transfer-encoding'' \<and> name \<noteq> ''content-encoding'')
                    (hkeys (headers resp))))"
  using assms
  by (simp add: headers_proxyResponse addCORSHeaders_def Let_def hget_hset lows)

theorem C6_witness:
  "hget ''Origin'' (headers req_origin) = Some ''https://example.com'' \<and>
   hget ''Access-Control-Allow-Origin'' (headers (proxyResponse req_origin (plain resp_ok)))
     = Some ''https://example.com'' \<and>
   hget ''Access-Control-Allow-Credentials'' (headers (proxyResponse req_origin (plain resp_ok)))
     = Some ''true'' \<and>
   hget ''Access-Control-Expose-Headers'' (headers (proxyResponse req_origin (plain resp_ok)))
     = Some ''x-redirect-status,x-redirect-statusText,X-Proxy-Set-Cookie,x-orig-location,x-orig-ts,content-type'' \<and>
   hget ''Access-Control-Expose-Headers'' (headers (proxyResponse req_origin (plain resp_two_cookies)))
     = Some ''x-redirect-status,x-redirect-statusText,X-Proxy-Set-Cookie,x-orig-location,x-orig-ts,set-cookie,set-cookie,x-a''"
proof -
  have h: "hget ''Origin'' (headers req_origin) = Some ''https://example.com''"
    by code_simp
  have k: "join '',''
             ([''x-redirect-status'', ''x-redirect-statusText'', ''X-Proxy-Set-Cookie'',
               ''x-orig-location'', ''x-orig-ts'']
              @ filter (\<lambda>name. name \<noteq> ''transfer-encoding'' \<and> name \<noteq> ''content-encoding'')
                  (hkeys (headers (plain resp_ok))))
           = ''x-redirect-status,x-redirect-statusText,X-Proxy-Set-Cookie,x-orig-location,x-orig-ts,content-type''"
    by code_simp
  have k2: "join '',''
             ([''x-redirect-status'', ''x-redirect-statusText'', ''X-Proxy-Set-Cookie'',
               ''x-orig-location'', ''x-orig-ts'']
              @ filter (\<lambda>name. name \<noteq> ''transfer-encoding'' \<and> name \<noteq> ''content-encoding'')
                  (hkeys (headers (plain resp_two_cookies))))
           = ''x-redirect-status,x-redirect-statusText,X-Proxy-Set-Cookie,x-orig-location,x-orig-ts,set-cookie,set-cookie,x-a''"
    by code_simp
  from C6_origin_reflected [OF h, of "plain resp_ok"] h k
  have 1: "hget ''Access-Control-Allow-Origin'' (headers (proxyResponse req_origin (plain resp_ok)))
             = Some ''https://example.com''"
    and 2: "hget ''Access-Control-Allow-Credentials'' (headers (proxyResponse req_origin (plain resp_ok)))
             = Some ''true''"
    and 3: "hget ''Access-Control-Expose-Headers'' (headers (proxyResponse req_origin (plain resp_ok)))
     = Some ''x-redirect-status,x-redirect-statusText,X-Proxy-Set-Cookie,x-orig-location,x-orig-ts,content-type''"
    by simp_all
  from C6_origin_reflected [OF h, of "plain resp_two_cookies"] k2
  have 4: "hget ''Access-Control-Expose-Headers'' (headers (proxyResponse req_origin (plain resp_two_cookies)))
     = Some ''x-redirect-status,x-redirect-statusText,X-Proxy-Set-Cookie,x-orig-location,x-orig-ts,set-cookie,set-cookie,x-a''"
    by simp
  from h 1 2 3 4 show ?thesis by (simp only: simp_thms)
qed

text \<open>
  C7.  The claim: when the outgoing status is at least 400 and the upstream response
  carries no \<^verbatim>\<open>memento-datetime\<close> header the body is the literal error text and the
  status is passed through; in every other case the upstream body is passed through.  The
  source tests \<^verbatim>\<open>!resp.headers.get("memento-datetime")\<close>, which holds for a header with
  an empty value too: a 404 that carries the header, empty, has its body replaced.
\<close>

theorem C7_empty_memento_body_replaced:
  "hget ''memento-datetime'' (headers (plain resp_404_empty_memento)) = Some [] \<and>
   body (plain resp_404_empty_memento) = ReadableStream ''archived 404 page'' \<and>
   body (proxyResponse req_plain (plain resp_404_empty_memento)) =
     String ''Sorry, this page was not found or could not be loaded: (Error 404)''"
  by code_simp

text \<open>
  C7, as amended.  When the outgoing status is at least 400 and the upstream response
  carries no \<^verbatim>\<open>memento-datetime\<close> header with a non-empty value, the outgoing body is
  the string \<^verbatim>\<open>Sorry, this page was not found or could not be loaded: (Error <status>)\<close>
  with the outgoing status, which is the upstream status; in every other case the outgoing
  body is the upstream body.
\<close>

theorem C7_error_body:
  "(400 \<le> status (proxyResponse req resp) \<and> \<not> truthy (hget ''memento-datetime'' (headers resp))
      \<longrightarrow> body (proxyResponse req resp) =
            String (''Sorry, this page was not found or could not be loaded: (Error ''
                    @ toString (status (proxyResponse req resp)) @ '')'')
          \<and> status (proxyResponse req resp) = status resp)
   \<and> (\<not> (400 \<le> status (proxyResponse req resp)
           \<and> \<not> truthy (hget ''memento-datetime'' (headers resp)))
      \<longrightarrow> body (proxyResponse req resp) = body resp)"
  by (auto simp: proxyResponse_def Let_def proxyStatus_def)

theorem C7_witness:
  "body (proxyResponse req_plain (plain resp_404)) =
     String ''Sorry, this page was not found or could not be loaded: (Error 404)'' \<and>
   status (proxyResponse req_plain (plain resp_404)) = 404 \<and>
   body (proxyResponse req_plain (plain resp_404_memento)) = ReadableStream ''archived 404 page'' \<and>
   body (proxyResponse req_plain (plain resp_ok)) = ReadableStream ''<html></html>''"
proof -
  have a: "400 \<le> status (proxyResponse req_plain (plain resp_404))"
    and b: "\<not> truthy (hget ''memento-datetime'' (headers (plain resp_404)))"
    and c: "toString (status (plain resp_404)) = ''404''"
    and d: "status (plain resp_404) = 404"
    and e: "truthy (hget ''memento-datetime'' (headers (plain resp_404_memento)))"
    and f: "body (plain resp_404_memento) = ReadableStream ''archived 404 page''"
    and g: "\<not> 400 \<le> status (proxyResponse req_plain (plain resp_ok))"
    and h: "body (plain resp_ok) = ReadableStream ''<html></html>''"
    by code_simp+
  from C7_error_body [of req_plain "plain resp_404"] a b c d
  have 1: "body (proxyResponse req_plain (plain resp_404)) =
     String ''Sorry, this page was not found or could not be loaded: (Error 404)''"
    and 2: "status (proxyResponse req_plain (plain resp_404)) = 404"
    by simp_all
  from C7_error_body [of req_plain "plain resp_404_memento"] e f
  have 3: "body (proxyResponse req_plain (plain resp_404_memento)) = ReadableStream ''archived 404 page''"
    by simp
  from C7_error_body [of req_plain "plain resp_ok"] g h
  have 4: "body (proxyResponse req_plain (plain resp_ok)) = ReadableStream ''<html></html>''"
    by simp
  from 1 2 3 4 show ?thesis by simp
qed

section \<open>The preflight responder\<close>

text \<open>
  C9.  The claim: for every OPTIONS request, when an allow-list is configured and the
  request's origin is absent from it the answer is 403 with the JSON body
  \<^verbatim>\<open>{"error":"origin not allowed"}\<close>; otherwise a preflight answer when \<^verbatim>\<open>Origin\<close>,
  \<^verbatim>\<open>Access-Control-Request-Method\<close> and \<^verbatim>\<open>Access-Control-Request-Headers\<close> are all
  present; otherwise \<^verbatim>\<open>Allow\<close> alone.  The 403 test reads \<^verbatim>\<open>origin &&\<close>, false for an
  \<^verbatim>\<open>Origin\<close> header with an empty value, while the preflight test reads
  \<^verbatim>\<open>origin !== null\<close>: an empty origin, which is not in the list, gets the preflight
  answer with status 200.
\<close>

theorem C9_empty_origin_is_not_refused:
  "CORS_ALLOWED_ORIGINS \<noteq> None \<and>
   hget ''Origin'' (headers opt_empty_origin) = Some [] \<and>
   [] \<notin> set (the CORS_ALLOWED_ORIGINS) \<and>
   handleOptions opt_empty_origin =
     \<lparr>headers = [(''Access-Control-Allow-Method'', ''POST''),
                  (''Access-Control-Allow-Headers'', ''content-type''),
                  (''Access-Control-Allow-Origin'', []),
                  (''Access-Control-Allow-Credentials'', ''true'')],
      body = Null, status = 200, statusText = []\<rparr>"
  by code_simp

text \<open>
  C9, as amended.  With the allow-list of the source configured: when the request carries
  an \<^verbatim>\<open>Origin\<close> with a non-empty value that is absent from the list, the answer is
  status 403 with \<^verbatim>\<open>Content-Type: application/json\<close> and the body
  \<^verbatim>\<open>{"error":"origin not allowed"}\<close>; otherwise, when \<^verbatim>\<open>Origin\<close>,
  \<^verbatim>\<open>Access-Control-Request-Method\<close> and \<^verbatim>\<open>Access-Control-Request-Headers\<close> are all
  present, the answer has status 200, no body, and echoes the method, the headers and the
  origin with \<^verbatim>\<open>Access-Control-Allow-Credentials: true\<close>; otherwise the answer has
  status 200, no body and the one header \<^verbatim>\<open>Allow: GET, HEAD, POST, OPTIONS\<close>.
\<close>

theorem C9_handleOptions_cases:
  assumes "CORS_ALLOWED_ORIGINS = Some allowed"
  shows
  "(\<forall>origin. hget ''Origin'' (headers req) = Some origin \<and> origin \<noteq> [] \<and> origin \<notin> set allowed \<longrightarrow>
      handleOptions req =
        \<lparr>headers = [(''Content-Type'', ''application/json'')],
         body = String (''{'' @ [CHR 0x22] @ ''error'' @ [CHR 0x22] @ '':'' @ [CHR 0x22]
                        @ ''origin not allowed'' @ [CHR 0x22] @ ''}''),
         status = 403, statusText = []\<rparr>)
   \<and> (\<forall>origin meth hdrs.
        hget ''Origin'' (headers req) = Some origin \<and> (origin = [] \<or> origin \<in> set allowed)
        \<and> hget ''Access-Control-Request-Method'' (headers req) = Some meth
        \<and> hget ''Access-Control-Request-Headers'' (headers req) = Some hdrs \<longrightarrow>
      handleOptions req =
        \<lparr>headers = [(''Access-Control-Allow-Method'', meth),
                     (''Access-Control-Allow-Headers'', hdrs),
                     (''Access-Control-Allow-Origin'', origin),
                     (''Access-Control-Allow-Credentials'', ''true'')],
         body = Null, status = 200, statusText = []\<rparr>)
   \<and> ((hget ''Origin'' (headers req) = None
         \<or> hget ''Origin'' (headers req) = Some []
         \<or> the (hget ''Origin'' (headers req)) \<in> set allowed)
        \<and> (hget ''Origin'' (headers req) = None
             \<or> hget ''Access-Control-Request-Method'' (headers req) = None
             \<or> hget ''Access-Control-Request-Headers'' (headers req) = None) \<longrightarrow>
      handleOptions req =
        \<lparr>headers = [(''Allow'', ''GET, HEAD, POST, OPTIONS'')],
         body = Null, status = 200, statusText = []\<rparr>)"
proof -
  have a: "allowed \<noteq> []"
    using assms by (auto simp: CORS_ALLOWED_ORIGINS_def)
  have q: "quoteJSONString ''error'' = [CHR 0x22] @ ''error'' @ [CHR 0x22]"
    "quoteJSONString ''origin not allowed'' = [CHR 0x22] @ ''origin not allowed'' @ [CHR 0x22]"
    by code_simp+
  show ?thesis
    using a by (auto simp: handleOptions_def Let_def assms notFound_def q)
qed

theorem C9_witness:
  "handleOptions opt_forbidden =
     \<lparr>headers = [(''Content-Type'', ''application/json'')],
      body = String (''{'' @ [CHR 0x22] @ ''error'' @ [CHR 0x22] @ '':'' @ [CHR 0x22]
                     @ ''origin not allowed'' @ [CHR 0x22] @ ''}''),
      status = 403, statusText = []\<rparr> \<and>
   handleOptions opt_preflight =
     \<lparr>headers = [(''Access-Control-Allow-Method'', ''POST''),
                  (''Access-Control-Allow-Headers'', ''content-type''),
                  (''Access-Control-Allow-Origin'', ''http://localhost:3000''),
                  (''Access-Control-Allow-Credentials'', ''true'')],
      body = Null, status = 200, statusText = []\<rparr> \<and>
   handleOptions opt_bare =
     \<lparr>headers = [(''Allow'', ''GET, HEAD, POST, OPTIONS'')],
      body = Null, status = 200, statusText = []\<rparr>"
proof -
  let ?allowed = "[''http://localhost:10001'', ''http://localhost:8000'',
                   ''http://localhost:3000'', ''https://proxy-test.slax.dev'']"
  have c: "CORS_ALLOWED_ORIGINS = Some ?allowed"
    by (simp add: CORS_ALLOWED_ORIGINS_def)
  have f: "hget ''Origin'' (headers opt_forbidden) = Some ''https://evil.test''"
    and p: "hget ''Origin'' (headers opt_preflight) = Some ''http://localhost:3000''"
      "hget ''Access-Control-Request-Method'' (headers opt_preflight) = Some ''POST''"
      "hget ''Access-Control-Request-Headers'' (headers opt_preflight) = Some ''content-type''"
    and b: "hget ''Origin'' (headers opt_bare) = None"
    by code_simp+
  from C9_handleOptions_cases [OF c, of opt_forbidden] f
  have 1: "handleOptions opt_forbidden =
     \<lparr>headers = [(''Content-Type'', ''application/json'')],
      body = String (''{'' @ [CHR 0x22] @ ''error'' @ [CHR 0x22] @ '':'' @ [CHR 0x22]
                     @ ''origin not allowed'' @ [CHR 0x22] @ ''}''),
      status = 403, statusText = []\<rparr>"
    by simp
  from C9_handleOptions_cases [OF c, of opt_preflight] p
  have 2: "handleOptions opt_preflight =
     \<lparr>headers = [(''Access-Control-Allow-Method'', ''POST''),
                  (''Access-Control-Allow-Headers'', ''content-type''),
                  (''Access-Control-Allow-Origin'', ''http://localhost:3000''),
                  (''Access-Control-Allow-Credentials'', ''true'')],
      body = Null, status = 200, statusText = []\<rparr>"
    by simp
  from C9_handleOptions_cases [OF c, of opt_bare] b
  have 3: "handleOptions opt_bare =
     \<lparr>headers = [(''Allow'', ''GET, HEAD, POST, OPTIONS'')],
      body = Null, status = 200, statusText = []\<rparr>"
    by simp
  from 1 2 3 show ?thesis by simp
qed

section \<open>The redirect-aware fetcher\<close>

lemma TS_URL_at_nonempty: "TS_URL_at s = Some (t, u) \<Longrightarrow> t \<noteq> [] \<and> u \<noteq> []"
  by (auto simp: TS_URL_at_def Let_def split: if_splits option.splits)

lemma TS_URL_nonempty: "TS_URL s = Some (t, u) \<Longrightarrow> t \<noteq> [] \<and> u \<noteq> []"
  by (induction s) (auto split: option.splits dest: TS_URL_at_nonempty)

lemma TS_URL_Nil: "TS_URL s = Some m \<Longrightarrow> s \<noteq> []"
  by auto

text \<open>One turn of the loop, for a fetch that returned a response.\<close>

lemma fetchLoop_step:
  assumes "fetch w url init = (Inr resp, w')"
  shows "fetchLoop fetch noHttps url init w =
     (if 300 < status resp \<and> status resp < 400 \<and> status resp \<noteq> 304 then
            (let loc = hget ''location'' (headers resp) in
             if truthy loc then
               (let m = TS_URL (the loc); m2 = TS_URL url in
                if m \<noteq> None \<and> m2 \<noteq> None \<and> snd (the m) = snd (the m2)
                then fetchLoop fetch noHttps (the loc) init w'
                else
                  (let resp' = (if m \<noteq> None
                                then (plain resp)\<lparr>location := Some (snd (the m)),
                                                    ts := Some (fst (the m))\<rparr>
                                else plain resp)
                   in if truthy noHttps \<and> startsWith ''https://'' (the loc)
                      then fetchLoop fetch noHttps (the loc) init w'
                      else Some (Inr resp', w')))
             else Some (Inr (plain resp), w'))
          else Some (Inr (plain resp), w'))"
  by (subst fetchLoop.simps) (simp add: assms)

lemma fetchLoop_error:
  "fetch w url init = (Inl e, w') \<Longrightarrow> fetchLoop fetch noHttps url init w = Some (Inl e, w')"
  by (subst fetchLoop.simps) simp

lemma fetchLoop_unchanged:
  assumes "fetch w url init = (Inr resp, w')"
    and "\<not> (300 < status resp \<and> status resp < 400 \<and> status resp \<noteq> 304)
         \<or> \<not> truthy (hget ''location'' (headers resp))"
  shows "fetchLoop fetch noHttps url init w = Some (Inr (plain resp), w')"
  using assms(2) by (auto simp: fetchLoop_step [of fetch w url init resp w', OF assms(1)] Let_def)

lemma fetchLoop_follow:
  assumes "fetch w url init = (Inr resp, w')"
    and "300 < status resp \<and> status resp < 400 \<and> status resp \<noteq> 304"
    and "hget ''location'' (headers resp) = Some loc" and "loc \<noteq> []"
    and "TS_URL loc = Some (t, u)" and "TS_URL url = Some (t', u)"
  shows "fetchLoop fetch noHttps url init w = fetchLoop fetch noHttps loc init w'"
  using assms(2-) by (simp add: fetchLoop_step [of fetch w url init resp w', OF assms(1)] Let_def)

lemma fetchLoop_annotate:
  assumes "fetch w url init = (Inr resp, w')"
    and "300 < status resp \<and> status resp < 400 \<and> status resp \<noteq> 304"
    and "hget ''location'' (headers resp) = Some loc" and "loc \<noteq> []"
    and "TS_URL loc = Some (t, u)" and "map_option snd (TS_URL url) \<noteq> Some u"
    and "\<not> (truthy noHttps \<and> startsWith ''https://'' loc)"
  shows "fetchLoop fetch noHttps url init w =
           Some (Inr ((plain resp)\<lparr>location := Some u, ts := Some t\<rparr>), w')"
  using assms(2-) by (auto simp: fetchLoop_step [of fetch w url init resp w', OF assms(1)] Let_def)

lemma hget_case: "toLowerCase n = toLowerCase n' \<Longrightarrow> hget n hs = hget n' hs"
  by (simp add: hget_def named_def[abs_def])

text \<open>
  C2.  The claim: the fetcher inspects and follows redirects exactly when the status is
  one of 301, 302, 303, 307 and 308, and returns every other response unchanged without
  looking at \<^verbatim>\<open>Location\<close>.  The source tests
  \<^verbatim>\<open>resp.status > 300 && resp.status < 400 && resp.status !== 304\<close>: a 305 is outside the
  five and is inspected all the same.  Here its \<^verbatim>\<open>Location\<close> matches \<^verbatim>\<open>TS_URL\<close> and
  the response comes back with the two properties attached.
\<close>

theorem C2_status_305_is_inspected:
  "status resp_305 \<notin> set [301, 302, 303, 307, 308] \<and>
   fetchWithRedirCheck (respond resp_305) ''https://site.test/b.html'' ''GET'' [] Null () =
     Some (Inr ((plain resp_305)\<lparr>location := Some ''https://site.test/a.html'',
                                   ts := Some ''20200102000000''\<rparr>), ()) \<and>
   (plain resp_305)\<lparr>location := Some ''https://site.test/a.html'', ts := Some ''20200102000000''\<rparr>
     \<noteq> plain resp_305"
  by code_simp

text \<open>
  C2, as amended.  The fetcher applies its redirect logic exactly when the status is
  above 300, below 400 and not 304.  For a response of any other status it stops and
  returns the response unchanged, whatever its \<^verbatim>\<open>Location\<close>.  For a response with a
  status in that range: without a non-empty \<^verbatim>\<open>Location\<close> it returns the response
  unchanged; when \<^verbatim>\<open>Location\<close> and the current URL both match \<^verbatim>\<open>TS_URL\<close> with the
  same second group it fetches again at \<^verbatim>\<open>Location\<close>; when \<^verbatim>\<open>Location\<close> matches and
  neither that nor the \<^verbatim>\<open>X-OWT-No-HTTPS\<close> rule makes it fetch again, it returns the
  response with \<^verbatim>\<open>location\<close> and \<^verbatim>\<open>ts\<close> set to the groups.
\<close>

theorem C2_redirect_range:
  assumes "fetch w url (fetchInit meth hdrs bdy) = (Inr resp, w')"
  shows
   "(\<not> (300 < status resp \<and> status resp < 400 \<and> status resp \<noteq> 304) \<longrightarrow>
       fetchWithRedirCheck fetch url meth hdrs bdy w = Some (Inr (plain resp), w'))
    \<and> (300 < status resp \<and> status resp < 400 \<and> status resp \<noteq> 304 \<longrightarrow>
         (\<not> truthy (hget ''location'' (headers resp)) \<longrightarrow>
             fetchWithRedirCheck fetch url meth hdrs bdy w = Some (Inr (plain resp), w'))
       \<and> (\<forall>loc t u t'. hget ''location'' (headers resp) = Some loc \<and> TS_URL loc = Some (t, u)
              \<and> TS_URL url = Some (t', u) \<longrightarrow>
             fetchWithRedirCheck fetch url meth hdrs bdy w
               = fetchWithRedirCheck fetch loc meth hdrs bdy w')
       \<and> (\<forall>loc t u. hget ''location'' (headers resp) = Some loc \<and> TS_URL loc = Some (t, u)
              \<and> map_option snd (TS_URL url) \<noteq> Some u
              \<and> \<not> (truthy (hget ''X-OWT-No-HTTPS'' hdrs) \<and> startsWith ''https://'' loc) \<longrightarrow>
             fetchWithRedirCheck fetch url meth hdrs bdy w
               = Some (Inr ((plain resp)\<lparr>location := Some u, ts := Some t\<rparr>), w')))"
proof -
  let ?init = "fetchInit meth hdrs bdy"
  let ?nh = "hget ''X-OWT-No-HTTPS'' hdrs"
  let ?range = "300 < status resp \<and> status resp < 400 \<and> status resp \<noteq> 304"
  have F: "fetchWithRedirCheck fetch v meth hdrs bdy x = fetchLoop fetch ?nh v ?init x" for v x
    by (simp add: fetchWithRedirCheck_def)
  have A: "fetchWithRedirCheck fetch url meth hdrs bdy w = Some (Inr (plain resp), w')"
    if "\<not> ?range"
    using fetchLoop_unchanged [of fetch w url ?init resp w' ?nh, OF assms] that
    by (simp add: F)
  have B: "fetchWithRedirCheck fetch url meth hdrs bdy w = Some (Inr (plain resp), w')"
    if "\<not> truthy (hget ''location'' (headers resp))"
    using fetchLoop_unchanged [of fetch w url ?init resp w' ?nh, OF assms] that
    by (simp add: F)
  have C: "fetchWithRedirCheck fetch url meth hdrs bdy w
             = fetchWithRedirCheck fetch loc meth hdrs bdy w'"
    if "?range" "hget ''location'' (headers resp) = Some loc" "TS_URL loc = Some (t, u)"
       "TS_URL url = Some (t', u)" for loc t u t'
  proof -
    from that(3) have "loc \<noteq> []" by (rule TS_URL_Nil)
    with fetchLoop_follow [of fetch w url ?init resp w' loc t u t' ?nh, OF assms] that
    show ?thesis by (simp add: F)
  qed
  have D: "fetchWithRedirCheck fetch url meth hdrs bdy w
             = Some (Inr ((plain resp)\<lparr>location := Some u, ts := Some t\<rparr>), w')"
    if "?range" "hget ''location'' (headers resp) = Some loc" "TS_URL loc = Some (t, u)"
       "map_option snd (TS_URL url) \<noteq> Some u"
       "\<not> (truthy ?nh \<and> startsWith ''https://'' loc)" for loc t u
  proof -
    from that(3) have "loc \<noteq> []" by (rule TS_URL_Nil)
    with fetchLoop_annotate [of fetch w url ?init resp w' loc t u ?nh, OF assms] that
    show ?thesis by (simp add: F)
  qed
  show ?thesis
    using A B C D by blast
qed

theorem C2_witness:
  "fetchWithRedirCheck (respond resp_404) ''https://site.test/a.html'' ''GET'' [] Null () =
     Some (Inr (plain resp_404), ()) \<and>
   fetchWithRedirCheck (respond resp_302_ts) ''https://site.test/b.html'' ''GET'' [] Null () =
     Some (Inr ((plain resp_302_ts)\<lparr>location := Some ''https://site.test/a.html'',
                                      ts := Some ''20200102000000''\<rparr>), ())"
proof -
  have f: "respond resp_404 () ''https://site.test/a.html'' (fetchInit ''GET'' [] Null)
             = (Inr resp_404, ())"
    and g: "respond resp_302_ts () ''https://site.test/b.html'' (fetchInit ''GET'' [] Null)
             = (Inr resp_302_ts, ())"
    by (simp_all add: respond_def)
  have s: "\<not> (300 < status resp_404 \<and> status resp_404 < 400 \<and> status resp_404 \<noteq> 304)"
    and r: "300 < status resp_302_ts \<and> status resp_302_ts < 400 \<and> status resp_302_ts \<noteq> 304"
    by (simp_all add: resp_404_def resp_302_ts_def)
  have l: "hget ''location'' (headers resp_302_ts)
             = Some ''/web/20200102000000id_/https://site.test/a.html''"
    and m: "TS_URL ''/web/20200102000000id_/https://site.test/a.html''
             = Some (''20200102000000'', ''https://site.test/a.html'')"
    and n: "map_option snd (TS_URL ''https://site.test/b.html'') \<noteq> Some ''https://site.test/a.html''"
    and h: "\<not> truthy (hget ''X-OWT-No-HTTPS'' [])"
    by code_simp+
  from C2_redirect_range [of "respond resp_404" "()" _ "''GET''" "[]" Null resp_404 "()", OF f] s
  have 1: "fetchWithRedirCheck (respond resp_404) ''https://site.test/a.html'' ''GET'' [] Null () =
     Some (Inr (plain resp_404), ())"
    by blast
  from C2_redirect_range [of "respond resp_302_ts" "()" _ "''GET''" "[]" Null resp_302_ts "()", OF g]
    r l m n h
  have 2: "fetchWithRedirCheck (respond resp_302_ts) ''https://site.test/b.html'' ''GET'' [] Null () =
     Some (Inr ((plain resp_302_ts)\<lparr>location := Some ''https://site.test/a.html'',
                                      ts := Some ''20200102000000''\<rparr>), ())"
    by blast
  from 1 2 show ?thesis by simp
qed



text \<open>
  What the fetcher returns has its two ad-hoc properties unset or set from its own
  \<^verbatim>\<open>Location\<close>; set, they are never empty.
\<close>

lemma annotated_plain: "annotated (plain r)"
  by (simp add: annotated_def plain_def)

lemma annotated_update:
  assumes "truthy (hget ''location'' (headers resp))"
    and "TS_URL (the (hget ''location'' (headers resp))) = Some (t, u)"
  shows "annotated ((plain resp)\<lparr>location := Some u, ts := Some t\<rparr>)"
  using assms by (auto simp: annotated_def plain_def truthy_Some)

lemma fetchLoop_annotated_aux:
  assumes "fetchLoop fetch noHttps url init w = Some y"
  shows "\<forall>resp. fst y = Inr resp \<longrightarrow> annotated resp"
proof (rule fetchLoop.raw_induct
    [where P = "\<lambda>fetch noHttps url init w y. \<forall>resp. fst y = Inr resp \<longrightarrow> annotated resp",
     OF _ assms], goal_cases)
  case (1 loop fetch noHttps url init w y)
  obtain r w' where fw: "fetch w url init = (r, w')" by (cases "fetch w url init")
  from 1(2) fw show ?case
    by (auto simp: Let_def annotated_plain annotated_update split: sum.splits if_splits dest: 1(1))
qed

lemma fetchWithRedirCheck_annotated:
  "fetchWithRedirCheck fetch url meth hdrs bdy w = Some (Inr resp, w') \<Longrightarrow> annotated resp"
  using fetchLoop_annotated_aux [of fetch "hget ''X-OWT-No-HTTPS'' hdrs" url
     "fetchInit meth hdrs bdy" w "(Inr resp, w')"]
  by (simp add: fetchWithRedirCheck_def)

lemma annotated_nonempty:
  "annotated resp \<Longrightarrow> location resp \<noteq> Some [] \<and> ts resp \<noteq> Some []"
  by (auto simp: annotated_def dest: TS_URL_nonempty)

lemma fetchWithRedirCheck_metadata_nonempty:
  "fetchWithRedirCheck fetch url meth hdrs bdy w = Some (Inr resp, w')
     \<Longrightarrow> location resp \<noteq> Some [] \<and> ts resp \<noteq> Some []"
  by (rule annotated_nonempty) (rule fetchWithRedirCheck_annotated)

section \<open>Redirects described in headers\<close>

lemma hget_redirectHeaders:
  assumes "isRedirect (status resp)"
  shows "hget ''x-redirect-status'' (redirectHeaders resp hdrs) = Some (toString (status resp))"
    and "hget ''x-redirect-statusText'' (redirectHeaders resp hdrs) = Some (statusText resp)"
    and "hget ''x-orig-location'' (redirectHeaders resp hdrs) =
           (if truthy (hget ''location'' (headers resp)) then hget ''location'' (headers resp)
            else if truthy (location resp) then location resp
            else hget ''x-orig-location'' hdrs)"
    and "hget ''x-orig-ts'' (redirectHeaders resp hdrs) =
           (if truthy (ts resp) then ts resp else hget ''x-orig-ts'' hdrs)"
  using assms
  by (auto simp: redirectHeaders_def Let_def hget_hset lows truthy_Some)

text \<open>
  C4.  For every response the fetcher hands over (its \<^verbatim>\<open>location\<close> and \<^verbatim>\<open>ts\<close>
  properties, when set, are not empty: \<open>fetchWithRedirCheck_metadata_nonempty\<close>) with a
  status among 301, 302, 303, 307 and 308, the outgoing response has status 200,
  \<^verbatim>\<open>x-redirect-status\<close> is the upstream status in decimal, \<^verbatim>\<open>x-redirect-statusText\<close>
  is the upstream status text, \<^verbatim>\<open>x-orig-location\<close> is the upstream \<^verbatim>\<open>Location\<close> when
  the response has one (the source reads it with \<^verbatim>\<open>if (resp.headers.get("location"))\<close>,
  so one with a value) or else the \<^verbatim>\<open>location\<close> property when that is set, and
  \<^verbatim>\<open>x-orig-ts\<close> is the \<^verbatim>\<open>ts\<close> property when that is set.  For every other status the
  outgoing status is the upstream status.
\<close>

theorem C4_redirect_as_headers:
  assumes "location resp \<noteq> Some []" and "ts resp \<noteq> Some []"
  shows "(status resp \<in> {301, 302, 303, 307, 308} \<longrightarrow>
            status (proxyResponse req resp) = 200
          \<and> hget ''x-redirect-status'' (headers (proxyResponse req resp))
              = Some (toString (status resp))
          \<and> hget ''x-redirect-statusText'' (headers (proxyResponse req resp))
              = Some (statusText resp)
          \<and> (\<forall>l. hget ''Location'' (headers resp) = Some l \<and> l \<noteq> [] \<longrightarrow>
                hget ''x-orig-location'' (headers (proxyResponse req resp)) = Some l)
          \<and> (\<forall>u. \<not> truthy (hget ''Location'' (headers resp)) \<and> location resp = Some u \<longrightarrow>
                hget ''x-orig-location'' (headers (proxyResponse req resp)) = Some u)
          \<and> (\<forall>t. ts resp = Some t \<longrightarrow>
                hget ''x-orig-ts'' (headers (proxyResponse req resp)) = Some t))
       \<and> (status resp \<notin> {301, 302, 303, 307, 308} \<longrightarrow>
            status (proxyResponse req resp) = status resp)"
proof -
  have L: "hget ''Location'' (headers resp) = hget ''location'' (headers resp)"
    by (rule hget_case) (simp add: lows)
  have S: "isRedirect (status resp) \<longleftrightarrow> status resp \<in> {301, 302, 303, 307, 308}"
    by (simp add: isRedirect_def)
  have "status (proxyResponse req resp) = status resp" if "\<not> isRedirect (status resp)"
    using that by (simp add: status_proxyResponse proxyStatus_def)
  moreover have "status (proxyResponse req resp) = 200" if "isRedirect (status resp)"
    using that by (simp add: status_proxyResponse proxyStatus_def)
  moreover have "hget n (headers (proxyResponse req resp))
                   = hget n (redirectHeaders resp (setCookieHeaders resp (newHeaders (headers resp))))"
    if "toLowerCase n \<in> set [''x-redirect-status'', ''x-redirect-statustext'', ''x-orig-location'',
                          ''x-orig-ts'']" for n
    using that by (auto simp: headers_proxyResponse hget_addCORSHeaders_other)
  ultimately show ?thesis
    using assms unfolding S [symmetric] L
    by (auto simp: hget_redirectHeaders lows truthy_Some)
qed

theorem C4_witness:
  "status (proxyResponse req_plain (plain resp_302)) = 200 \<and>
   hget ''x-redirect-status'' (headers (proxyResponse req_plain (plain resp_302))) = Some ''302'' \<and>
   hget ''x-redirect-statusText'' (headers (proxyResponse req_plain (plain resp_302)))
     = Some ''Found'' \<and>
   hget ''x-orig-location'' (headers (proxyResponse req_plain (plain resp_302)))
     = Some ''https://site.test/b.html'' \<and>
   hget ''x-orig-ts''
     (headers (proxyResponse req_plain
        ((plain resp_302_ts)\<lparr>location := Some ''https://site.test/a.html'',
                              ts := Some ''20200102000000''\<rparr>)))
     = Some ''20200102000000'' \<and>
   status (proxyResponse req_plain (plain resp_404)) = 404"
proof -
  let ?a = "(plain resp_302_ts)\<lparr>location := Some ''https://site.test/a.html'',
                                 ts := Some ''20200102000000''\<rparr>"
  have n: "location (plain resp_302) \<noteq> Some []" "ts (plain resp_302) \<noteq> Some []"
      "location ?a \<noteq> Some []" "ts ?a \<noteq> Some []"
      "location (plain resp_404) \<noteq> Some []" "ts (plain resp_404) \<noteq> Some []"
    by (simp_all add: plain_def)
  have s: "status (plain resp_302) = 302" "statusText (plain resp_302) = ''Found''"
      "status ?a = 302" "status (plain resp_404) = 404" "ts ?a = Some ''20200102000000''"
    by (simp_all add: plain_def resp_302_def resp_302_ts_def resp_404_def)
  have l: "hget ''Location'' (headers (plain resp_302)) = Some ''https://site.test/b.html''"
    and d: "toString 302 = ''302''"
    by code_simp+
  from C4_redirect_as_headers [OF n(1,2), of req_plain] s l d
  have 1: "status (proxyResponse req_plain (plain resp_302)) = 200 \<and>
   hget ''x-redirect-status'' (headers (proxyResponse req_plain (plain resp_302))) = Some ''302'' \<and>
   hget ''x-redirect-statusText'' (headers (proxyResponse req_plain (plain resp_302)))
     = Some ''Found'' \<and>
   hget ''x-orig-location'' (headers (proxyResponse req_plain (plain resp_302)))
     = Some ''https://site.test/b.html''"
    by simp
  from C4_redirect_as_headers [OF n(3,4), of req_plain] s
  have 2: "hget ''x-orig-ts'' (headers (proxyResponse req_plain ?a)) = Some ''20200102000000''"
    by simp
  from C4_redirect_as_headers [OF n(5,6), of req_plain] s
  have 3: "status (proxyResponse req_plain (plain resp_404)) = 404"
    by simp
  from 1 2 3 show ?thesis by simp
qed

section \<open>What is sent upstream\<close>

text \<open>Every call of \<^verbatim>\<open>fetch\<close> in one run carries the same method, headers and body.\<close>

lemma fetchLoop_calls_aux:
  assumes "fetchLoop f noHttps url init s = Some y"
  shows "\<forall>fetch. f = recording fetch \<longrightarrow>
           (\<exists>urls. snd (snd y) = snd s @ map (\<lambda>u. (u, init)) (url # urls))"
proof (rule fetchLoop.raw_induct
    [where P = "\<lambda>f noHttps url init s y. \<forall>fetch. f = recording fetch \<longrightarrow>
           (\<exists>urls. snd (snd y) = snd s @ map (\<lambda>u. (u, init)) (url # urls))", OF _ assms],
    goal_cases)
  case (1 loop f noHttps url init s y)
  show ?case
  proof (intro allI impI)
    fix fetch assume f: "f = recording fetch"
    obtain r w' where fw: "fetch (fst s) url init = (r, w')" by (cases "fetch (fst s) url init")
    have rec: "f s url init = (r, (w', snd s @ [(url, init)]))"
      by (simp add: f recording_def fw)
    have step: "\<exists>urls. snd (snd y') = snd s @ map (\<lambda>u. (u, init)) (url # urls)"
      if "loop f noHttps l init (w', snd s @ [(url, init)]) = Some y'" for l y'
    proof -
      from 1(1)[OF that] f obtain urls where
        "snd (snd y') = (snd s @ [(url, init)]) @ map (\<lambda>u. (u, init)) (l # urls)"
        by auto
      then have "snd (snd y') = snd s @ map (\<lambda>u. (u, init)) (url # l # urls)" by simp
      then show ?thesis by blast
    qed
    from 1(2) rec have "snd y = (w', snd s @ [(url, init)]) \<or>
        (\<exists>l. loop f noHttps l init (w', snd s @ [(url, init)]) = Some y)"
      by (auto simp: Let_def split: sum.splits if_splits)
    then show "\<exists>urls. snd (snd y) = snd s @ map (\<lambda>u. (u, init)) (url # urls)"
    proof
      assume "snd y = (w', snd s @ [(url, init)])"
      then have "snd (snd y) = snd s @ map (\<lambda>u. (u, init)) (url # [])" by simp
      then show ?thesis by blast
    next
      assume "\<exists>l. loop f noHttps l init (w', snd s @ [(url, init)]) = Some y"
      then show ?thesis using step by blast
    qed
  qed
qed

lemma fetchWithRedirCheck_calls:
  assumes "fetchWithRedirCheck (recording fetch) url meth hdrs bdy (w, calls) = Some (r, (w', calls'))"
  shows "\<exists>urls. calls' = calls @ map (\<lambda>u. (u, fetchInit meth hdrs bdy)) (url # urls)"
  using fetchLoop_calls_aux [of "recording fetch" "hget ''X-OWT-No-HTTPS'' hdrs" url
      "fetchInit meth hdrs bdy" "(w, calls)" "(r, (w', calls'))"] assms
  by (fastforce simp: fetchWithRedirCheck_def)

lemma handleLiveWebProxy_calls:
  assumes "handleLiveWebProxy (recording fetch) origin_of url req (w, calls) = Some (r, (w', calls'))"
  shows "(\<exists>e. proxyHeaders origin_of (proxyTarget url) req = Inl e \<and> r = Inl e \<and> calls' = calls)
       \<or> (\<exists>hdrs urls. proxyHeaders origin_of (proxyTarget url) req = Inr hdrs
            \<and> calls' = calls @ map (\<lambda>u. (u, fetchInit (httpMethod req) hdrs (proxyBody req)))
                                  (proxyTarget url # urls))"
proof (cases "proxyHeaders origin_of (proxyTarget url) req")
  case (Inl e)
  with assms show ?thesis by (simp add: handleLiveWebProxy_def)
next
  case (Inr hdrs)
  with assms obtain r0 where
    "fetchWithRedirCheck (recording fetch) (proxyTarget url) (httpMethod req) hdrs (proxyBody req)
       (w, calls) = Some (r0, (w', calls'))"
    by (auto simp: handleLiveWebProxy_def split: option.splits sum.splits)
  from fetchWithRedirCheck_calls [OF this] Inr show ?thesis by blast
qed

lemma recording_apply:
  "fetch w url init = (r, w') \<Longrightarrow> recording fetch (w, cs) url init = (r, (w', cs @ [(url, init)]))"
  by (simp add: recording_def)

lemma fetchLoop_recording_sound_aux:
  assumes "fetchLoop f noHttps url init s = Some y"
  shows "\<forall>fetch. f = recording fetch \<longrightarrow>
           fetchLoop fetch noHttps url init (fst s) = Some (fst y, fst (snd y))"
proof (rule fetchLoop.raw_induct
    [where P = "\<lambda>f noHttps url init s y. \<forall>fetch. f = recording fetch \<longrightarrow>
           fetchLoop fetch noHttps url init (fst s) = Some (fst y, fst (snd y))", OF _ assms],
    goal_cases)
  case (1 loop f noHttps url init s y)
  show ?case
  proof (intro allI impI)
    fix fetch assume f: "f = recording fetch"
    obtain r w' where fw: "fetch (fst s) url init = (r, w')" by (cases "fetch (fst s) url init")
    have rec: "f s url init = (r, (w', snd s @ [(url, init)]))"
      by (simp add: f recording_def fw)
    have IH: "fetchLoop fetch noHttps l init w' = Some (fst y, fst (snd y))"
      if "loop f noHttps l init (w', snd s @ [(url, init)]) = Some y" for l
      using 1(1) [OF that] f by simp
    show "fetchLoop fetch noHttps url init (fst s) = Some (fst y, fst (snd y))"
    proof (cases r)
      case (Inl e)
      with 1(2) rec fw show ?thesis
        by (auto simp: fetchLoop_error [of fetch "fst s" url init e w'])
    next
      case (Inr resp)
      with fw have fw': "fetch (fst s) url init = (Inr resp, w')" by simp
      from 1(2) rec Inr show ?thesis
        unfolding fetchLoop_step [of fetch "fst s" url init resp w' noHttps, OF fw']
        by (auto simp: Let_def split: if_splits dest: IH)
    qed
  qed
qed

lemma fetchLoop_recording_complete_aux:
  assumes "fetchLoop fetch noHttps url init w = Some y"
  shows "\<forall>cs. \<exists>cs'. fetchLoop (recording fetch) noHttps url init (w, cs) = Some (fst y, (snd y, cs'))"
proof (rule fetchLoop.raw_induct
    [where P = "\<lambda>fetch noHttps url init w y. \<forall>cs. \<exists>cs'.
        fetchLoop (recording fetch) noHttps url init (w, cs) = Some (fst y, (snd y, cs'))",
     OF _ assms], goal_cases)
  case (1 loop fetch noHttps url init w y)
  show ?case
  proof
    fix cs
    obtain r w' where fw: "fetch w url init = (r, w')" by (cases "fetch w url init")
    note rec = recording_apply [of fetch w url init r w' cs, OF fw]
    have IH: "\<exists>cs'. fetchLoop (recording fetch) noHttps l init (w', cs @ [(url, init)])
                 = Some (fst y, (snd y, cs'))"
      if "loop fetch noHttps l init w' = Some y" for l
      using 1(1) [OF that] by blast
    show "\<exists>cs'. fetchLoop (recording fetch) noHttps url init (w, cs) = Some (fst y, (snd y, cs'))"
    proof (cases r)
      case (Inl e)
      with 1(2) fw rec show ?thesis
        by (auto simp: fetchLoop_error [of "recording fetch" "(w, cs)" url init e])
    next
      case (Inr resp)
      with rec have rec': "recording fetch (w, cs) url init = (Inr resp, (w', cs @ [(url, init)]))"
        by simp
      from 1(2) fw Inr show ?thesis
        unfolding fetchLoop_step [of "recording fetch" "(w, cs)" url init resp
            "(w', cs @ [(url, init)])" noHttps, OF rec']
        by (auto simp: Let_def split: if_splits dest: IH)
    qed
  qed
qed

lemma fetchLoop_recording:
  "map_option (\<lambda>(r, s). (r, fst s)) (fetchLoop (recording fetch) noHttps url init (w, cs))
     = fetchLoop fetch noHttps url init w"
proof (cases "fetchLoop (recording fetch) noHttps url init (w, cs)")
  case None
  show ?thesis
  proof (cases "fetchLoop fetch noHttps url init w")
    case None
    with \<open>fetchLoop (recording fetch) noHttps url init (w, cs) = None\<close> show ?thesis by simp
  next
    case (Some y)
    from fetchLoop_recording_complete_aux [OF Some, THEN spec, of cs]
      \<open>fetchLoop (recording fetch) noHttps url init (w, cs) = None\<close>
    show ?thesis by simp
  qed
next
  case (Some y)
  from fetchLoop_recording_sound_aux [OF Some] Some show ?thesis
    by (cases y) simp
qed

text \<open>
  Recording the calls changes nothing in a run: with the list of calls dropped from the
  state, the handler on the recording transport returns what it returns on the transport
  itself, and does not return where that does not.
\<close>

theorem handleLiveWebProxy_recording:
  "map_option (\<lambda>(r, s). (r, fst s))
     (handleLiveWebProxy (recording fetch) origin_of url req (w, cs))
     = handleLiveWebProxy fetch origin_of url req w"
proof (cases "proxyHeaders origin_of (proxyTarget url) req")
  case (Inl e)
  then show ?thesis by (simp add: handleLiveWebProxy_def)
next
  case (Inr hdrs)
  let ?run = "fetchLoop (recording fetch) (hget ''X-OWT-No-HTTPS'' hdrs) (proxyTarget url)
                (fetchInit (httpMethod req) hdrs (proxyBody req)) (w, cs)"
  note eq = fetchLoop_recording [of fetch "hget ''X-OWT-No-HTTPS'' hdrs" "proxyTarget url"
      "fetchInit (httpMethod req) hdrs (proxyBody req)" w cs, symmetric]
  show ?thesis
    by (cases ?run)
      (auto simp: handleLiveWebProxy_def fetchWithRedirCheck_def Inr eq split: sum.splits)
qed

lemma fetchLoop_agree_aux:
  assumes "fetchLoop f noHttps url init w = Some y"
  shows "\<forall>g. (\<forall>w u. f w u init = g w u init) \<longrightarrow> fetchLoop g noHttps url init w = Some y"
proof (rule fetchLoop.raw_induct
    [where P = "\<lambda>f noHttps url init w y.
        \<forall>g. (\<forall>w u. f w u init = g w u init) \<longrightarrow> fetchLoop g noHttps url init w = Some y",
     OF _ assms], goal_cases)
  case (1 loop f noHttps url init w y)
  show ?case
  proof (intro allI impI)
    fix g :: "'a transport"
    assume fg: "\<forall>w u. f w u init = g w u init"
    obtain r w' where fw: "f w url init = (r, w')" by (cases "f w url init")
    with fg have gw: "g w url init = (r, w')" by simp
    have IH: "fetchLoop g noHttps l init w' = Some y" if "loop f noHttps l init w' = Some y" for l
      using 1(1) [OF that] fg by blast
    show "fetchLoop g noHttps url init w = Some y"
    proof (cases r)
      case (Inl e)
      with 1(2) fw gw show ?thesis
        by (auto simp: fetchLoop_error [of g w url init e w'])
    next
      case (Inr resp)
      with gw have gw': "g w url init = (Inr resp, w')" by simp
      from 1(2) fw Inr show ?thesis
        unfolding fetchLoop_step [of g w url init resp w' noHttps, OF gw']
        by (auto simp: Let_def split: if_splits dest: IH)
    qed
  qed
qed

lemma fetchLoop_agree:
  assumes "\<forall>w u. f w u init = g w u init"
  shows "fetchLoop f noHttps url init w = fetchLoop g noHttps url init w"
proof (cases "fetchLoop f noHttps url init w")
  case (Some y)
  from fetchLoop_agree_aux [OF Some] assms Some show ?thesis by simp
next
  case None
  show ?thesis
  proof (cases "fetchLoop g noHttps url init w")
    case None
    with \<open>fetchLoop f noHttps url init w = None\<close> show ?thesis by simp
  next
    case (Some y)
    from assms have "\<forall>w u. g w u init = f w u init" by simp
    with fetchLoop_agree_aux [OF Some] have "fetchLoop f noHttps url init w = Some y" by blast
    with \<open>fetchLoop f noHttps url init w = None\<close> show ?thesis by simp
  qed
qed

text \<open>
  A run of the handler, returning or not, depends on the transport only through calls
  that carry the one method, header mapping and body of \<open>fetchInit\<close>: two transports
  that agree on those calls give the same run.
\<close>

theorem transport_sees_one_init:
  assumes "proxyHeaders origin_of (proxyTarget url) req = Inr hdrs"
    and "\<forall>w u. f w u (fetchInit (httpMethod req) hdrs (proxyBody req))
               = g w u (fetchInit (httpMethod req) hdrs (proxyBody req))"
  shows "handleLiveWebProxy f origin_of url req w = handleLiveWebProxy g origin_of url req w"
  using fetchLoop_agree [where f = f and g = g
      and init = "fetchInit (httpMethod req) hdrs (proxyBody req)"
      and noHttps = "hget ''X-OWT-No-HTTPS'' hdrs" and url = "proxyTarget url" and w = w,
      OF assms(2)]
  by (simp add: handleLiveWebProxy_def fetchWithRedirCheck_def assms(1))

theorem transport_sees_one_init_witness:
  "handleLiveWebProxy picky origin_table ''https://site.test/a.html'' req_get_body () =
     Some (Inr \<lparr>headers = [(''content-encoding'', ''gzip''), (''content-type'', ''text/html'')],
                 body = ReadableStream ''<html></html>'', status = 200, statusText = ''OK''\<rparr>, ())"
proof -
  have e: "proxyHeaders origin_table (proxyTarget ''https://site.test/a.html'') req_get_body
             = Inr [(''content-type'', ''text/plain'')]"
    and b: "body (fetchInit (httpMethod req_get_body) [(''content-type'', ''text/plain'')]
                   (proxyBody req_get_body)) = Null"
    and r: "handleLiveWebProxy (respond resp_ok) origin_table ''https://site.test/a.html''
              req_get_body () =
     Some (Inr \<lparr>headers = [(''content-encoding'', ''gzip''), (''content-type'', ''text/html'')],
                 body = ReadableStream ''<html></html>'', status = 200, statusText = ''OK''\<rparr>, ())"
    by code_simp+
  have a: "\<forall>w u. picky w u (fetchInit (httpMethod req_get_body) [(''content-type'', ''text/plain'')]
                   (proxyBody req_get_body))
             = respond resp_ok w u (fetchInit (httpMethod req_get_body)
                   [(''content-type'', ''text/plain'')] (proxyBody req_get_body))"
    by (simp add: picky_def respond_def b)
  from transport_sees_one_init [where f = picky and g = "respond resp_ok" and w = "()", OF e a] r
  show ?thesis
    by simp
qed

text \<open>
  C10.  In a run of the handler that returns, every call of \<^verbatim>\<open>fetch\<close> has a null body
  when the request's method is \<^verbatim>\<open>GET\<close> or \<^verbatim>\<open>HEAD\<close>, whatever body the request has,
  and has the request's body for every other method; a run that returns a response has
  made at least one call.
\<close>

theorem C10_outbound_body:
  assumes "handleLiveWebProxy (recording fetch) origin_of url req (w, []) = Some (r, (w', calls))"
  shows "(httpMethod req = ''GET'' \<or> httpMethod req = ''HEAD'' \<longrightarrow>
            (\<forall>c \<in> set calls. body (snd c) = Null))
       \<and> (httpMethod req \<noteq> ''GET'' \<and> httpMethod req \<noteq> ''HEAD'' \<longrightarrow>
            (\<forall>c \<in> set calls. body (snd c) = body req))
       \<and> ((\<exists>out. r = Inr out) \<longrightarrow> calls \<noteq> [])"
  using handleLiveWebProxy_calls [OF assms]
  by (auto simp: fetchInit_def proxyBody_def Let_def)

theorem C10_witness:
  "handleLiveWebProxy (recording (respond resp_ok)) origin_table ''https://site.test/a.html''
     req_get_body ((), []) =
     Some (Inr \<lparr>headers = [(''content-encoding'', ''gzip''), (''content-type'', ''text/html'')],
                 body = ReadableStream ''<html></html>'', status = 200, statusText = ''OK''\<rparr>,
           ((), [(''https://site.test/a.html'',
                  \<lparr>headers = [(''content-type'', ''text/plain'')], body = Null,
                   httpMethod = ''GET''\<rparr>)])) \<and>
   list_all (\<lambda>c. body (snd c) = Null)
     [(''https://site.test/a.html'',
       \<lparr>headers = [(''content-type'', ''text/plain'')], body = Null, httpMethod = ''GET''\<rparr>)] \<and>
   handleLiveWebProxy (recording (respond resp_ok)) origin_table ''https://site.test/a.html''
     req_post ((), []) =
     Some (Inr \<lparr>headers = [(''content-encoding'', ''gzip''), (''content-type'', ''text/html'')],
                 body = ReadableStream ''<html></html>'', status = 200, statusText = ''OK''\<rparr>,
           ((), [(''https://site.test/a.html'',
                  \<lparr>headers = [(''content-type'', ''text/plain'')],
                   body = ReadableStream ''payload'', httpMethod = ''POST''\<rparr>)])) \<and>
   list_all (\<lambda>c. body (snd c) = ReadableStream ''payload'')
     [(''https://site.test/a.html'',
       \<lparr>headers = [(''content-type'', ''text/plain'')], body = ReadableStream ''payload'',
        httpMethod = ''POST''\<rparr>)]"
proof -
  let ?out = "\<lparr>headers = [(''content-encoding'', ''gzip''), (''content-type'', ''text/html'')],
                 body = ReadableStream ''<html></html>'', status = 200, statusText = ''OK''\<rparr>"
  let ?g = "[(''https://site.test/a.html'',
       \<lparr>headers = [(''content-type'', ''text/plain'')], body = Null, httpMethod = ''GET''\<rparr>)]"
  let ?p = "[(''https://site.test/a.html'',
       \<lparr>headers = [(''content-type'', ''text/plain'')], body = ReadableStream ''payload'',
        httpMethod = ''POST''\<rparr>)]"
  have g: "handleLiveWebProxy (recording (respond resp_ok)) origin_table ''https://site.test/a.html''
     req_get_body ((), []) = Some (Inr ?out, ((), ?g))"
    and p: "handleLiveWebProxy (recording (respond resp_ok)) origin_table ''https://site.test/a.html''
     req_post ((), []) = Some (Inr ?out, ((), ?p))"
    and m: "httpMethod req_get_body = ''GET''" "httpMethod req_post = ''POST''"
      "body req_post = ReadableStream ''payload''"
    by code_simp+
  from C10_outbound_body [OF g] m have 1: "\<forall>c \<in> set ?g. body (snd c) = Null"
    by blast
  from C10_outbound_body [OF p] m have 2: "\<forall>c \<in> set ?p. body (snd c) = ReadableStream ''payload''"
    by simp
  from g p 1 2 show ?thesis
    by (simp add: list_all_iff)
qed

lemma hget_userAgentHeaders:
  "toLowerCase n \<notin> set [''user-agent'', ''x-proxy-user-agent'']
     \<Longrightarrow> hget n (userAgentHeaders req hdrs) = hget n hdrs"
  by (simp add: userAgentHeaders_def Let_def hget_hset hget_hdelete lows)

lemma hget_cookieHeaders:
  "toLowerCase n \<noteq> ''cookie'' \<Longrightarrow> hget n (cookieHeaders req hdrs) = hget n hdrs"
  by (simp add: cookieHeaders_def Let_def hget_hset lows)

lemma hget_fetchInit:
  "toLowerCase n \<noteq> ''x-owt-no-https''
     \<Longrightarrow> hget n (headers (fetchInit meth hdrs bdy)) = hget n hdrs"
  by (simp add: fetchInit_def Let_def hget_hdelete lows)

lemma refererHeaders_ok:
  assumes "hget ''x-proxy-referer'' (headers req) = Some referrer" and "referrer \<noteq> []"
    and "origin_of referrer = Some origin" and "origin_of proxyUrl = Some target"
  shows "refererHeaders origin_of proxyUrl req hdrs =
           Inr (if origin \<noteq> target
                then hset ''Sec-Fetch-Site'' ''cross-origin''
                       (hset ''Origin'' origin (hset ''Referer'' referrer hdrs))
                else hset ''Sec-Fetch-Site'' ''same-origin''
                       (hdelete ''Origin'' (hset ''Referer'' referrer hdrs)))"
  using assms by (simp add: refererHeaders_def Let_def)

text \<open>
  C8.  The claim: for every inbound request carrying \<^verbatim>\<open>X-Proxy-Referer\<close> the outbound
  \<^verbatim>\<open>Referer\<close> is that value, with \<^verbatim>\<open>Origin\<close> and \<^verbatim>\<open>Sec-Fetch-Site\<close> set by the
  comparison of the two origins.  The source reads \<^verbatim>\<open>if (referrer)\<close>, false for a
  header with an empty value: such a request carries the header, and what is sent
  upstream has no \<^verbatim>\<open>Referer\<close> and no \<^verbatim>\<open>Sec-Fetch-Site\<close>.
\<close>

theorem C8_empty_referer_is_ignored:
  "hget ''X-Proxy-Referer'' (headers req_referer_empty) = Some [] \<and>
   handleLiveWebProxy (recording (respond resp_ok)) origin_table ''https://site.test/a.html''
     req_referer_empty ((), []) =
     Some (Inr \<lparr>headers = [(''content-encoding'', ''gzip''), (''content-type'', ''text/html'')],
                 body = ReadableStream ''<html></html>'', status = 200, statusText = ''OK''\<rparr>,
           ((), [(''https://site.test/a.html'',
                  \<lparr>headers = [], body = Null, httpMethod = ''GET''\<rparr>)])) \<and>
   hget ''Referer'' [] = None \<and> hget ''Sec-Fetch-Site'' [] = None"
  by code_simp

text \<open>
  C8, as amended.  For every inbound request carrying \<^verbatim>\<open>X-Proxy-Referer\<close> with a
  non-empty value, where \<^verbatim>\<open>new URL\<close> gives an origin for that value and for the target
  URL: the headers are built without an exception, and in what is passed to \<^verbatim>\<open>fetch\<close>
  \<^verbatim>\<open>Referer\<close> is that value; when the two origins differ \<^verbatim>\<open>Origin\<close> is the
  referrer's origin and \<^verbatim>\<open>Sec-Fetch-Site\<close> is \<^verbatim>\<open>cross-origin\<close>; when they are equal
  there is no \<^verbatim>\<open>Origin\<close> and \<^verbatim>\<open>Sec-Fetch-Site\<close> is \<^verbatim>\<open>same-origin\<close>.  Every call of
  \<^verbatim>\<open>fetch\<close> in a run that returns is made with these headers, and there is at least one.
\<close>

theorem C8_referer_translated:
  assumes "hget ''X-Proxy-Referer'' (headers req) = Some referrer" and "referrer \<noteq> []"
    and "origin_of referrer = Some origin" and "origin_of (proxyTarget url) = Some target"
  shows "\<exists>hdrs. proxyHeaders origin_of (proxyTarget url) req = Inr hdrs
      \<and> hget ''Referer'' (headers (fetchInit (httpMethod req) hdrs (proxyBody req))) = Some referrer
      \<and> (origin \<noteq> target \<longrightarrow>
            hget ''Origin'' (headers (fetchInit (httpMethod req) hdrs (proxyBody req))) = Some origin
          \<and> hget ''Sec-Fetch-Site'' (headers (fetchInit (httpMethod req) hdrs (proxyBody req)))
              = Some ''cross-origin'')
      \<and> (origin = target \<longrightarrow>
            hget ''Origin'' (headers (fetchInit (httpMethod req) hdrs (proxyBody req))) = None
          \<and> hget ''Sec-Fetch-Site'' (headers (fetchInit (httpMethod req) hdrs (proxyBody req)))
              = Some ''same-origin'')
      \<and> (\<forall>fetch w r w' calls.
            handleLiveWebProxy (recording fetch) origin_of url req (w, []) = Some (r, (w', calls))
            \<longrightarrow> calls \<noteq> []
              \<and> (\<forall>c \<in> set calls. snd c = fetchInit (httpMethod req) hdrs (proxyBody req)))"
proof -
  have r: "hget ''x-proxy-referer'' (headers req) = Some referrer"
    using assms(1) hget_case [of "''x-proxy-referer''" "''X-Proxy-Referer''" "headers req"]
    by (simp add: lows)
  note ref = refererHeaders_ok [OF r assms(2,3,4), of "copyHeaders req"]
  define hdrs0 where "hdrs0 = (if origin \<noteq> target
                then hset ''Sec-Fetch-Site'' ''cross-origin''
                       (hset ''Origin'' origin (hset ''Referer'' referrer (copyHeaders req)))
                else hset ''Sec-Fetch-Site'' ''same-origin''
                       (hdelete ''Origin'' (hset ''Referer'' referrer (copyHeaders req))))"
  define hdrs where "hdrs = cookieHeaders req (hdelete ''host'' (userAgentHeaders req hdrs0))"
  have ph: "proxyHeaders origin_of (proxyTarget url) req = Inr hdrs"
    using ref by (simp add: proxyHeaders_def hdrs_def hdrs0_def)
  have through: "hget n (headers (fetchInit (httpMethod req) hdrs (proxyBody req))) = hget n hdrs0"
    if "toLowerCase n \<notin> set [''x-owt-no-https'', ''cookie'', ''host'', ''user-agent'',
                                 ''x-proxy-user-agent'']" for n
    using that
    by (simp add: hdrs_def hget_fetchInit hget_cookieHeaders hget_hdelete hget_userAgentHeaders
        lows)
  have 1: "hget ''Referer'' (headers (fetchInit (httpMethod req) hdrs (proxyBody req))) = Some referrer"
    by (subst through) (simp_all add: lows hdrs0_def hget_hset hget_hdelete)
  have 2: "hget ''Origin'' (headers (fetchInit (httpMethod req) hdrs (proxyBody req))) =
             (if origin \<noteq> target then Some origin else None)"
    by (subst through) (simp_all add: lows hdrs0_def hget_hset hget_hdelete)
  have 3: "hget ''Sec-Fetch-Site'' (headers (fetchInit (httpMethod req) hdrs (proxyBody req))) =
             (if origin \<noteq> target then Some ''cross-origin'' else Some ''same-origin'')"
    by (subst through) (simp_all add: lows hdrs0_def hget_hset hget_hdelete)
  have 4: "calls \<noteq> [] \<and> (\<forall>c \<in> set calls. snd c = fetchInit (httpMethod req) hdrs (proxyBody req))"
    if "handleLiveWebProxy (recording fetch) origin_of url req (w, []) = Some (r, (w', calls))"
    for fetch :: "'a transport" and w r w' calls
    using handleLiveWebProxy_calls [OF that] ph by auto
  from ph 1 2 3 4 show ?thesis
    by (intro exI [of _ hdrs]) (simp add: 4)
qed


theorem C8_witness:
  "proxyHeaders origin_table ''https://site.test/a.html'' req_referer_cross =
     Inr [(''Referer'', ''https://other.test/page''), (''Origin'', ''https://other.test''),
          (''Sec-Fetch-Site'', ''cross-origin'')] \<and>
   hget ''Referer''
     (headers (fetchInit ''GET''
        [(''Referer'', ''https://other.test/page''), (''Origin'', ''https://other.test''),
         (''Sec-Fetch-Site'', ''cross-origin'')] Null)) = Some ''https://other.test/page'' \<and>
   hget ''Origin''
     (headers (fetchInit ''GET''
        [(''Referer'', ''https://other.test/page''), (''Origin'', ''https://other.test''),
         (''Sec-Fetch-Site'', ''cross-origin'')] Null)) = Some ''https://other.test'' \<and>
   hget ''Sec-Fetch-Site''
     (headers (fetchInit ''GET''
        [(''Referer'', ''https://other.test/page''), (''Origin'', ''https://other.test''),
         (''Sec-Fetch-Site'', ''cross-origin'')] Null)) = Some ''cross-origin'' \<and>
   proxyHeaders origin_table ''https://site.test/a.html'' req_referer_same =
     Inr [(''Referer'', ''https://site.test/index.html''), (''Sec-Fetch-Site'', ''same-origin'')] \<and>
   hget ''Origin''
     (headers (fetchInit ''GET''
        [(''Referer'', ''https://site.test/index.html''), (''Sec-Fetch-Site'', ''same-origin'')]
        Null)) = None \<and>
   hget ''Sec-Fetch-Site''
     (headers (fetchInit ''GET''
        [(''Referer'', ''https://site.test/index.html''), (''Sec-Fetch-Site'', ''same-origin'')]
        Null)) = Some ''same-origin''"
proof -
  let ?url = "''https://site.test/a.html''"
  let ?cross = "[(''Referer'', ''https://other.test/page''), (''Origin'', ''https://other.test''),
                 (''Sec-Fetch-Site'', ''cross-origin'')]"
  let ?same = "[(''Referer'', ''https://site.test/index.html''),
                (''Sec-Fetch-Site'', ''same-origin'')]"
  have c: "hget ''X-Proxy-Referer'' (headers req_referer_cross) = Some ''https://other.test/page''"
      "origin_table ''https://other.test/page'' = Some ''https://other.test''"
    and s: "hget ''X-Proxy-Referer'' (headers req_referer_same) = Some ''https://site.test/index.html''"
      "origin_table ''https://site.test/index.html'' = Some ''https://site.test''"
    and t: "origin_table (proxyTarget ?url) = Some ''https://site.test''"
    and p: "proxyTarget ?url = ?url"
    and m: "httpMethod req_referer_cross = ''GET''" "proxyBody req_referer_cross = Null"
      "httpMethod req_referer_same = ''GET''" "proxyBody req_referer_same = Null"
    and e: "proxyHeaders origin_table ?url req_referer_cross = Inr ?cross"
      "proxyHeaders origin_table ?url req_referer_same = Inr ?same"
    by code_simp+
  have n: "''https://other.test/page'' \<noteq> []" "''https://site.test/index.html'' \<noteq> []"
    by simp_all
  from C8_referer_translated [where ?'a = unit, OF c(1) n(1) c(2) t, unfolded p e m]
  have 1: "hget ''Referer'' (headers (fetchInit ''GET'' ?cross Null)) = Some ''https://other.test/page''
      \<and> hget ''Origin'' (headers (fetchInit ''GET'' ?cross Null)) = Some ''https://other.test''
      \<and> hget ''Sec-Fetch-Site'' (headers (fetchInit ''GET'' ?cross Null)) = Some ''cross-origin''"
    by simp
  from C8_referer_translated [where ?'a = unit, OF s(1) n(2) s(2) t, unfolded p e m]
  have 2: "hget ''Origin'' (headers (fetchInit ''GET'' ?same Null)) = None
      \<and> hget ''Sec-Fetch-Site'' (headers (fetchInit ''GET'' ?same Null)) = Some ''same-origin''"
    by simp
  from 1 2 e show ?thesis
    by simp
qed

text \<open>
  C1.  The claim: what is sent upstream has no header named with the prefix \<^verbatim>\<open>cf-\<close> or
  \<^verbatim>\<open>x-pywb-\<close>, no \<^verbatim>\<open>Host\<close>, and none of \<^verbatim>\<open>X-Proxy-Referer\<close>,
  \<^verbatim>\<open>X-Proxy-User-Agent\<close> and \<^verbatim>\<open>X-Proxy-Cookie\<close> once translated; an inbound
  \<^verbatim>\<open>X-Proxy-Cookie: session=abc\<close> gives \<^verbatim>\<open>Cookie: session=abc\<close> and no
  \<^verbatim>\<open>X-Proxy-Cookie\<close>.  The copying loop skips \<^verbatim>\<open>x-proxy-referer\<close> and the source
  deletes \<^verbatim>\<open>x-proxy-user-agent\<close> when it sets \<^verbatim>\<open>User-Agent\<close>, but nothing removes
  \<^verbatim>\<open>x-proxy-cookie\<close>: the request of the claim is sent upstream with both
  \<^verbatim>\<open>Cookie\<close> and \<^verbatim>\<open>x-proxy-cookie\<close>.
\<close>

theorem C1_x_proxy_cookie_is_sent_upstream:
  "handleLiveWebProxy (recording (respond resp_ok)) origin_table ''https://site.test/a.html''
     req_cookie ((), []) =
     Some (Inr \<lparr>headers = [(''content-encoding'', ''gzip''), (''content-type'', ''text/html'')],
                 body = ReadableStream ''<html></html>'', status = 200, statusText = ''OK''\<rparr>,
           ((), [(''https://site.test/a.html'',
                  \<lparr>headers = [(''x-proxy-cookie'', ''session=abc''), (''Cookie'', ''session=abc'')],
                   body = Null, httpMethod = ''GET''\<rparr>)])) \<and>
   hget ''Cookie'' [(''x-proxy-cookie'', ''session=abc''), (''Cookie'', ''session=abc'')]
     = Some ''session=abc'' \<and>
   hget ''X-Proxy-Cookie'' [(''x-proxy-cookie'', ''session=abc''), (''Cookie'', ''session=abc'')]
     = Some ''session=abc''"
  by code_simp

lemma in_lnames: "m \<in> lnames hs \<longleftrightarrow> (\<exists>kv \<in> set hs. toLowerCase (fst kv) = m)"
  by (auto simp: lnames_def)

lemma hget_None_iff: "hget n hs = None \<longleftrightarrow> toLowerCase n \<notin> lnames hs"
  by (auto simp: hget_values filter_empty_conv named_def in_lnames)

lemma lnames_hdelete: "lnames (hdelete n hs) = lnames hs - {toLowerCase n}"
  by (auto simp: lnames_def hdelete_def named_def)

lemma lnames_hset: "lnames (hset n v hs) = insert (toLowerCase n) (lnames hs)"
proof (induction hs)
  case Nil
  show ?case by (simp add: lnames_def)
next
  case (Cons kv hs)
  have c: "lnames (kv # hs) = insert (toLowerCase (fst kv)) (lnames hs)" for kv and hs :: headers
    by (simp add: lnames_def)
  show ?case
  proof (cases "named n kv")
    case True
    then show ?thesis
      by (auto simp: c lnames_hdelete named_def)
  next
    case False
    with Cons show ?thesis
      by (auto simp: c)
  qed
qed

lemma lnames_Nil: "lnames [] = {}"
  by (simp add: lnames_def)

lemma lnames_foldl_copy:
  assumes "n \<in> lnames (foldl (\<lambda>acc (name, v).
              if startsWith ''cf-'' name \<or> startsWith ''x-pywb-'' name \<or> name = ''x-proxy-referer''
              then acc else hset name v acc) acc xs)"
  shows "n \<in> lnames acc \<or> (\<exists>name \<in> fst ` set xs. n = toLowerCase name
           \<and> \<not> startsWith ''cf-'' name \<and> \<not> startsWith ''x-pywb-'' name
           \<and> name \<noteq> ''x-proxy-referer'')"
  using assms
proof (induction xs arbitrary: acc)
  case Nil
  then show ?case by simp
next
  case (Cons x xs)
  obtain name v where x: "x = (name, v)" by (cases x)
  let ?skip = "startsWith ''cf-'' name \<or> startsWith ''x-pywb-'' name \<or> name = ''x-proxy-referer''"
  show ?case
  proof (cases ?skip)
    case True
    with Cons.prems have "n \<in> lnames (foldl (\<lambda>acc (name, v).
              if startsWith ''cf-'' name \<or> startsWith ''x-pywb-'' name \<or> name = ''x-proxy-referer''
              then acc else hset name v acc) acc xs)"
      by (simp add: x)
    from Cons.IH [OF this] show ?thesis by auto
  next
    case False
    with Cons.prems have "n \<in> lnames (foldl (\<lambda>acc (name, v).
              if startsWith ''cf-'' name \<or> startsWith ''x-pywb-'' name \<or> name = ''x-proxy-referer''
              then acc else hset name v acc) (hset name v acc) xs)"
      by (simp add: x)
    from Cons.IH [OF this] have "n \<in> lnames acc \<or> n = toLowerCase name
       \<or> (\<exists>name \<in> fst ` set xs. n = toLowerCase name
           \<and> \<not> startsWith ''cf-'' name \<and> \<not> startsWith ''x-pywb-'' name
           \<and> name \<noteq> ''x-proxy-referer'')"
      by (auto simp: lnames_hset)
    with False show ?thesis
      by (auto simp: x)
  qed
qed

lemma lnames_copyHeaders:
  assumes "n \<in> lnames (copyHeaders req)"
  shows "\<not> startsWith ''cf-'' n \<and> \<not> startsWith ''x-pywb-'' n \<and> n \<noteq> ''x-proxy-referer''"
proof -
  from lnames_foldl_copy [of n "[]" "hentries (headers req)"] assms
  obtain name where n: "n = toLowerCase name" "name \<in> fst ` set (hentries (headers req))"
    "\<not> startsWith ''cf-'' name" "\<not> startsWith ''x-pywb-'' name" "name \<noteq> ''x-proxy-referer''"
    unfolding copyHeaders_def lnames_Nil by blast
  from n(2) have "name \<in> set (hkeys (headers req))"
    by (simp add: hkeys_def)
  then have "toLowerCase name = name" by (rule hkeys_lower)
  with n show ?thesis by simp
qed

lemma lnames_hdelete_subset: "lnames (hdelete n hs) \<subseteq> lnames hs"
  by (simp add: lnames_hdelete)

lemma refererHeaders_names:
  assumes "refererHeaders origin_of proxyUrl req hdrs = Inr hdrs'"
  shows "lnames hdrs' \<subseteq> lnames hdrs \<union> added_names"
  using assms
  by (auto simp: refererHeaders_def Let_def lnames_hset lnames_hdelete lows added_names_def
      split: if_splits option.splits)

lemma userAgentHeaders_names:
  "lnames (userAgentHeaders req hdrs) \<subseteq> lnames hdrs \<union> added_names"
  by (auto simp: userAgentHeaders_def Let_def lnames_hset lnames_hdelete lows added_names_def)

lemma cookieHeaders_names:
  "lnames (cookieHeaders req hdrs) \<subseteq> lnames hdrs \<union> added_names"
  by (auto simp: cookieHeaders_def Let_def lnames_hset lows added_names_def)

lemma fetchInit_names: "lnames (headers (fetchInit meth hdrs bdy)) \<subseteq> lnames hdrs"
  by (auto simp: fetchInit_def Let_def lnames_hdelete)

lemma proxyHeaders_names:
  assumes "proxyHeaders origin_of proxyUrl req = Inr hdrs"
  shows "lnames hdrs \<subseteq> lnames (copyHeaders req) \<union> added_names"
proof -
  from assms obtain h1 where h1: "refererHeaders origin_of proxyUrl req (copyHeaders req) = Inr h1"
    and hdrs: "hdrs = cookieHeaders req (hdelete ''host'' (userAgentHeaders req h1))"
    by (auto simp: proxyHeaders_def split: sum.splits)
  from refererHeaders_names [OF h1] userAgentHeaders_names [of req h1]
    lnames_hdelete_subset [of "''host''" "userAgentHeaders req h1"]
    cookieHeaders_names [of req "hdelete ''host'' (userAgentHeaders req h1)"]
  show ?thesis
    unfolding hdrs by blast
qed

lemma added_names_prefix:
  "n \<in> added_names \<Longrightarrow>
     \<not> startsWith ''cf-'' n \<and> \<not> startsWith ''x-pywb-'' n \<and> n \<noteq> ''x-proxy-referer''"
  by (auto simp: added_names_def startsWith_def)

text \<open>
  What does hold of the outbound headers, whenever they are built without an exception:
  no name starts with \<^verbatim>\<open>cf-\<close> or \<^verbatim>\<open>x-pywb-\<close>; there is no \<^verbatim>\<open>Host\<close> and no
  \<^verbatim>\<open>X-Proxy-Referer\<close>; an \<^verbatim>\<open>X-Proxy-User-Agent\<close> with a value is removed and is
  the \<^verbatim>\<open>User-Agent\<close>; an \<^verbatim>\<open>X-Proxy-Cookie\<close> with a value is the \<^verbatim>\<open>Cookie\<close>.
\<close>

theorem outbound_headers_sanitized:
  assumes "proxyHeaders origin_of proxyUrl req = Inr hdrs"
  shows "(\<forall>kv \<in> set (headers (fetchInit meth hdrs bdy)).
            \<not> startsWith ''cf-'' (toLowerCase (fst kv))
          \<and> \<not> startsWith ''x-pywb-'' (toLowerCase (fst kv)))
       \<and> hget ''Host'' (headers (fetchInit meth hdrs bdy)) = None
       \<and> hget ''X-Proxy-Referer'' (headers (fetchInit meth hdrs bdy)) = None
       \<and> (truthy (hget ''X-Proxy-User-Agent'' (headers req)) \<longrightarrow>
            hget ''X-Proxy-User-Agent'' (headers (fetchInit meth hdrs bdy)) = None
          \<and> hget ''User-Agent'' (headers (fetchInit meth hdrs bdy))
              = hget ''X-Proxy-User-Agent'' (headers req))
       \<and> (truthy (hget ''X-Proxy-Cookie'' (headers req)) \<longrightarrow>
            hget ''Cookie'' (headers (fetchInit meth hdrs bdy))
              = hget ''X-Proxy-Cookie'' (headers req))"
proof -
  let ?out = "headers (fetchInit meth hdrs bdy)"
  from assms obtain h1 where h1: "refererHeaders origin_of proxyUrl req (copyHeaders req) = Inr h1"
    and hdrs: "hdrs = cookieHeaders req (hdelete ''host'' (userAgentHeaders req h1))"
    by (auto simp: proxyHeaders_def split: sum.splits)
  have sub: "lnames ?out \<subseteq> lnames (copyHeaders req) \<union> added_names"
    using fetchInit_names [of meth hdrs bdy] proxyHeaders_names [OF assms] by blast
  have pre: "\<not> startsWith ''cf-'' n \<and> \<not> startsWith ''x-pywb-'' n \<and> n \<noteq> ''x-proxy-referer''"
    if "n \<in> lnames ?out" for n
  proof -
    from sub that consider "n \<in> lnames (copyHeaders req)" | "n \<in> added_names"
      by blast
    then show ?thesis
    proof cases
      case 1
      then show ?thesis by (rule lnames_copyHeaders)
    next
      case 2
      then show ?thesis by (rule added_names_prefix)
    qed
  qed
  have A: "\<forall>kv \<in> set ?out. \<not> startsWith ''cf-'' (toLowerCase (fst kv))
          \<and> \<not> startsWith ''x-pywb-'' (toLowerCase (fst kv))"
    using pre by (fastforce simp: in_lnames)
  have B: "hget ''Host'' ?out = None"
    by (simp add: hdrs hget_fetchInit hget_cookieHeaders hget_hdelete lows)
  have "''x-proxy-referer'' \<notin> lnames ?out"
    using pre [of "''x-proxy-referer''"] by (cases "''x-proxy-referer'' \<in> lnames ?out") simp_all
  then have C: "hget ''X-Proxy-Referer'' ?out = None"
    by (simp add: hget_None_iff lows)
  have ua: "hget ''x-proxy-user-agent'' (headers req) = hget ''X-Proxy-User-Agent'' (headers req)"
    and ck: "hget ''x-proxy-cookie'' (headers req) = hget ''X-Proxy-Cookie'' (headers req)"
    by (rule hget_case, simp add: lows)+
  have D: "hget ''X-Proxy-User-Agent'' ?out = None
          \<and> hget ''User-Agent'' ?out = hget ''X-Proxy-User-Agent'' (headers req)"
    if "truthy (hget ''X-Proxy-User-Agent'' (headers req))"
    using that
    by (auto simp: hdrs hget_fetchInit hget_cookieHeaders hget_hdelete hget_hset lows
        userAgentHeaders_def ua truthy_Some)
  have E: "hget ''Cookie'' ?out = hget ''X-Proxy-Cookie'' (headers req)"
    if "truthy (hget ''X-Proxy-Cookie'' (headers req))"
    using that
    by (auto simp: hdrs hget_fetchInit hget_hset lows cookieHeaders_def ck truthy_Some)
  from A B C D E show ?thesis by blast
qed

theorem outbound_headers_sanitized_witness:
  "proxyHeaders origin_table ''https://site.test/a.html'' req_dirty =
     Inr [(''accept'', ''text/html''), (''x-proxy-cookie'', ''session=abc''),
          (''User-Agent'', ''Mozilla/5.0''), (''Cookie'', ''session=abc'')] \<and>
   list_all (\<lambda>kv. \<not> startsWith ''cf-'' (toLowerCase (fst kv))
                  \<and> \<not> startsWith ''x-pywb-'' (toLowerCase (fst kv)))
     (headers (fetchInit ''GET''
        [(''accept'', ''text/html''), (''x-proxy-cookie'', ''session=abc''),
         (''User-Agent'', ''Mozilla/5.0''), (''Cookie'', ''session=abc'')] Null)) \<and>
   hget ''Host'' (headers (fetchInit ''GET''
        [(''accept'', ''text/html''), (''x-proxy-cookie'', ''session=abc''),
         (''User-Agent'', ''Mozilla/5.0''), (''Cookie'', ''session=abc'')] Null)) = None \<and>
   hget ''X-Proxy-User-Agent'' (headers (fetchInit ''GET''
        [(''accept'', ''text/html''), (''x-proxy-cookie'', ''session=abc''),
         (''User-Agent'', ''Mozilla/5.0''), (''Cookie'', ''session=abc'')] Null)) = None \<and>
   hget ''User-Agent'' (headers (fetchInit ''GET''
        [(''accept'', ''text/html''), (''x-proxy-cookie'', ''session=abc''),
         (''User-Agent'', ''Mozilla/5.0''), (''Cookie'', ''session=abc'')] Null))
     = Some ''Mozilla/5.0'' \<and>
   hget ''Cookie'' (headers (fetchInit ''GET''
        [(''accept'', ''text/html''), (''x-proxy-cookie'', ''session=abc''),
         (''User-Agent'', ''Mozilla/5.0''), (''Cookie'', ''session=abc'')] Null))
     = Some ''session=abc''"
proof -
  let ?h = "[(''accept'', ''text/html''), (''x-proxy-cookie'', ''session=abc''),
             (''User-Agent'', ''Mozilla/5.0''), (''Cookie'', ''session=abc'')]"
  have e: "proxyHeaders origin_table ''https://site.test/a.html'' req_dirty = Inr ?h"
    and u: "hget ''X-Proxy-User-Agent'' (headers req_dirty) = Some ''Mozilla/5.0''"
    and c: "hget ''X-Proxy-Cookie'' (headers req_dirty) = Some ''session=abc''"
    by code_simp+
  from outbound_headers_sanitized [OF e, of "''GET''" Null] u c e
  show ?thesis
    by (simp add: list_all_iff)
qed

text \<open>
  The first URL fetched is the target with its scheme: a target that starts with
  \<^verbatim>\<open>//\<close> is fetched with \<^verbatim>\<open>https:\<close> in front.
\<close>

theorem protocol_relative_target:
  assumes "handleLiveWebProxy (recording fetch) origin_of url req (w, []) = Some (Inr out, (w', calls))"
  shows "calls \<noteq> [] \<and> fst (hd calls) = proxyTarget url
       \<and> (startsWith ''//'' url \<longrightarrow> fst (hd calls) = ''https:'' @ url)"
  using handleLiveWebProxy_calls [OF assms]
  by (auto simp: proxyTarget_def)

theorem protocol_relative_target_witness:
  "handleLiveWebProxy (recording (respond resp_ok)) origin_table ''//site.test/a.html'' req_plain
     ((), []) =
     Some (Inr \<lparr>headers = [(''content-encoding'', ''gzip''), (''content-type'', ''text/html'')],
                 body = ReadableStream ''<html></html>'', status = 200, statusText = ''OK''\<rparr>,
           ((), [(''https://site.test/a.html'',
                  \<lparr>headers = [(''accept'', ''text/html'')], body = Null, httpMethod = ''GET''\<rparr>)])) \<and>
   fst (hd [(''https://site.test/a.html'',
             \<lparr>headers = [(''accept'', ''text/html'')], body = Null, httpMethod = ''GET''\<rparr>)])
     = ''https:'' @ ''//site.test/a.html''"
proof -
  have e: "handleLiveWebProxy (recording (respond resp_ok)) origin_table ''//site.test/a.html''
     req_plain ((), []) =
     Some (Inr \<lparr>headers = [(''content-encoding'', ''gzip''), (''content-type'', ''text/html'')],
                 body = ReadableStream ''<html></html>'', status = 200, statusText = ''OK''\<rparr>,
           ((), [(''https://site.test/a.html'',
                  \<lparr>headers = [(''accept'', ''text/html'')], body = Null, httpMethod = ''GET''\<rparr>)]))"
    and s: "startsWith ''//'' ''//site.test/a.html''"
    by code_simp+
  from protocol_relative_target [OF e] s e show ?thesis
    by simp
qed

section \<open>Cookies set by the upstream\<close>

text \<open>
  An upstream \<^verbatim>\<open>Set-Cookie\<close> with a value is also given to the client as
  \<^verbatim>\<open>X-Proxy-Set-Cookie\<close>.
\<close>

theorem set_cookie_exposed:
  assumes "truthy (hget ''Set-Cookie'' (headers resp))"
  shows "hget ''X-Proxy-Set-Cookie'' (headers (proxyResponse req resp))
           = hget ''Set-Cookie'' (headers resp)"
proof -
  have c: "hget ''set-cookie'' (headers resp) = hget ''Set-Cookie'' (headers resp)"
    by (rule hget_case) (simp add: lows)
  from assms show ?thesis
    by (auto simp: headers_proxyResponse hget_addCORSHeaders_other hget_redirectHeaders_other
        setCookieHeaders_def hget_hset lows c truthy_Some)
qed

theorem set_cookie_exposed_witness:
  "hget ''Set-Cookie'' (headers (plain resp_set_cookie)) = Some ''id=1; Path=/'' \<and>
   hget ''X-Proxy-Set-Cookie'' (headers (proxyResponse req_plain (plain resp_set_cookie)))
     = Some ''id=1; Path=/''"
proof -
  have h: "hget ''Set-Cookie'' (headers (plain resp_set_cookie)) = Some ''id=1; Path=/''"
    by code_simp
  then have t: "truthy (hget ''Set-Cookie'' (headers (plain resp_set_cookie)))"
    by simp
  from set_cookie_exposed [OF t, of req_plain] h show ?thesis
    by simp
qed

end
